theory Spec2Isabelle
  imports Main
begin

section \<open>Strings and the two stack-frame patterns\<close>

text \<open>
  Strings are lists of \<^typ>\<open>char\<close>; one \<^typ>\<open>char\<close> stands for one code unit of the
  source string, restricted to the range 0..255. The line separator of
  \<^verbatim>\<open>split("\n")\<close> is the character 0x0A.
\<close>

text \<open>\<^verbatim>\<open>s.split("\n")\<close>: always at least one piece, the empty string gives one empty piece.\<close>

fun split_nl :: "string \<Rightarrow> string list" where
  "split_nl [] = [[]]"
| "split_nl (c # cs) =
     (if c = CHR 0x0A then [] # split_nl cs
      else (case split_nl cs of [] \<Rightarrow> [[c]] | l # ls \<Rightarrow> (c # l) # ls))"

text \<open>\<^verbatim>\<open>lines.join("\n")\<close>, used to write stack texts line by line.\<close>

fun join_nl :: "string list \<Rightarrow> string" where
  "join_nl [] = []"
| "join_nl [l] = l"
| "join_nl (l # ls) = l @ CHR 0x0A # join_nl ls"

text \<open>\<^verbatim>\<open>s.includes(sub)\<close>: \<open>sub\<close> occurs in \<open>s\<close> as a contiguous piece.\<close>

fun str_includes :: "string \<Rightarrow> string \<Rightarrow> bool" where
  "str_includes [] sub = (sub = [])"
| "str_includes (c # cs) sub = (take (length sub) (c # cs) = sub \<or> str_includes cs sub)"

text \<open>
  The character classes of the two patterns: \<^verbatim>\<open>\s\<close> (white space; within 0..255 these are
  tab, line feed, vertical tab, form feed, carriage return, space and the no-break
  space), \<^verbatim>\<open>.\<close> (anything but a line terminator) and \<^verbatim>\<open>\d\<close>.
\<close>

datatype cls = Space | Dot | Digit

fun in_cls :: "cls \<Rightarrow> char \<Rightarrow> bool" where
  "in_cls Space c = (c \<in> set [CHR 0x09, CHR 0x0A, CHR 0x0B, CHR 0x0C, CHR 0x0D, CHR 0x20, CHR 0xA0])"
| "in_cls Dot c = (c \<noteq> CHR 0x0A \<and> c \<noteq> CHR 0x0D)"
| "in_cls Digit c = (c \<in> set ''0123456789'')"

text \<open>
  Both patterns are sequences of literal characters and of repeated character classes,
  some of them inside a capture group. \<open>Rep c n g\<close> repeats class \<open>c\<close> at least \<open>n\<close>
  times, greedily when \<open>g\<close> holds (\<^verbatim>\<open>*\<close>, \<^verbatim>\<open>+\<close>) and lazily otherwise (\<^verbatim>\<open>*?\<close>).
\<close>

datatype atom = Lit char | Rep cls nat bool

datatype item = Plain atom | Cap atom

fun atom_of :: "item \<Rightarrow> atom" where
  "atom_of (Plain a) = a"
| "atom_of (Cap a) = a"

text \<open>A capture group prepends the text it matched to the captures of the rest.\<close>

fun capture :: "item \<Rightarrow> string \<Rightarrow> string list \<Rightarrow> string list" where
  "capture (Plain a) txt caps = caps"
| "capture (Cap a) txt caps = txt # caps"

text \<open>
  The repetition counts a backtracking matcher tries, in its order: a greedy repetition
  starts from the longest run and gives characters back, a lazy one starts from the
  shortest.
\<close>

definition counts :: "nat \<Rightarrow> bool \<Rightarrow> nat \<Rightarrow> nat list" where
  "counts mn greedy avail =
     (if greedy then rev [mn ..< Suc avail] else [mn ..< Suc avail])"

text \<open>
  \<open>match_here r s\<close> matches the pattern \<open>r\<close> at the start of \<open>s\<close> the way a backtracking
  engine does and returns the captures of the first successful alternative.
\<close>

fun match_here :: "item list \<Rightarrow> string \<Rightarrow> string list option" where
  "match_here [] s = Some []"
| "match_here (it # rest) s =
     (case atom_of it of
        Lit c \<Rightarrow>
          (case s of
             [] \<Rightarrow> None
           | x # xs \<Rightarrow> if x = c then map_option (capture it [x]) (match_here rest xs) else None)
      | Rep cl mn greedy \<Rightarrow>
          (case List.find (\<lambda>r. r \<noteq> None)
                  (map (\<lambda>k. map_option (capture it (take k s)) (match_here rest (drop k s)))
                       (counts mn greedy (length (takeWhile (in_cls cl) s)))) of
             None \<Rightarrow> None
           | Some r \<Rightarrow> r))"

text \<open>\<^verbatim>\<open>s.match(r)\<close> without flags: the leftmost start position that matches.\<close>

fun search :: "item list \<Rightarrow> string \<Rightarrow> string list option" where
  "search r [] = match_here r []"
| "search r (c # cs) =
     (case match_here r (c # cs) of Some caps \<Rightarrow> Some caps | None \<Rightarrow> search r cs)"

text \<open>\<^verbatim>\<open>/\s*at\s+(.*?)\s+\((.*):(\d+):(\d+)\)/\<close>\<close>

definition frame_with_function :: "item list" where
  "frame_with_function =
     [Plain (Rep Space 0 True), Plain (Lit CHR ''a''), Plain (Lit CHR ''t''),
      Plain (Rep Space 1 True), Cap (Rep Dot 0 False), Plain (Rep Space 1 True),
      Plain (Lit CHR ''(''), Cap (Rep Dot 0 True), Plain (Lit CHR '':''),
      Cap (Rep Digit 1 True), Plain (Lit CHR '':''), Cap (Rep Digit 1 True),
      Plain (Lit CHR '')'')]"

text \<open>\<^verbatim>\<open>/\s*at\s+(.*):(\d+):(\d+)/\<close>\<close>

definition frame_without_function :: "item list" where
  "frame_without_function =
     [Plain (Rep Space 0 True), Plain (Lit CHR ''a''), Plain (Lit CHR ''t''),
      Plain (Rep Space 1 True), Cap (Rep Dot 0 True), Plain (Lit CHR '':''),
      Cap (Rep Digit 1 True), Plain (Lit CHR '':''), Cap (Rep Digit 1 True)]"

section \<open>Stack-frame extraction in reportError\<close>

text \<open>The four variables \<^verbatim>\<open>functionName\<close>, \<^verbatim>\<open>fileName\<close>, \<^verbatim>\<open>line\<close>, \<^verbatim>\<open>col\<close>; \<open>None\<close> is \<^verbatim>\<open>undefined\<close>.\<close>

record frame =
  functionName :: "string option"
  fileName :: "string option"
  line :: "string option"
  col :: "string option"

definition no_frame :: frame where
  "no_frame = \<lparr>functionName = None, fileName = None, line = None, col = None\<rparr>"

text \<open>
  The body of the loop up to the test: the first pattern sets all four variables, the
  second one only three of them, and a line matching neither leaves them as they are.
\<close>

definition match_line :: "string \<Rightarrow> frame \<Rightarrow> frame" where
  "match_line stackLine f =
     (case search frame_with_function stackLine of
        Some [m1, m2, m3, m4] \<Rightarrow>
          \<lparr>functionName = Some m1, fileName = Some m2, line = Some m3, col = Some m4\<rparr>
      | _ \<Rightarrow>
          (case search frame_without_function stackLine of
             Some [m1, m2, m3] \<Rightarrow> f\<lparr>fileName := Some m1, line := Some m2, col := Some m3\<rparr>
           | _ \<Rightarrow> f))"

text \<open>
  \<^verbatim>\<open>fileName && !fileName.includes('node_modules') && !fileName.includes('internal/')\<close>;
  the empty string is falsy.
\<close>

definition meaningful :: "frame \<Rightarrow> bool" where
  "meaningful f =
     (case fileName f of
        None \<Rightarrow> False
      | Some fn \<Rightarrow> fn \<noteq> [] \<and> \<not> str_includes fn ''node_modules'' \<and> \<not> str_includes fn ''internal/'')"

text \<open>The loop over the stack lines, with its \<^verbatim>\<open>break\<close>.\<close>

fun scan_frames :: "string list \<Rightarrow> frame \<Rightarrow> frame" where
  "scan_frames [] f = f"
| "scan_frames (stackLine # later) f =
     (let f' = match_line stackLine f
      in if meaningful f' then f' else scan_frames later f')"

text \<open>
  \<^verbatim>\<open>(errorObj.stack || "").split("\n")\<close>, then the loop from index 1. An absent and an
  empty stack both give the single line \<^verbatim>\<open>""\<close>.
\<close>

definition stack_lines :: "string option \<Rightarrow> string list" where
  "stack_lines stack = split_nl (case stack of None \<Rightarrow> [] | Some s \<Rightarrow> s)"

definition extract_frame :: "string option \<Rightarrow> frame" where
  "extract_frame stack = scan_frames (drop 1 (stack_lines stack)) no_frame"

section \<open>Function references and the host runtime\<close>

text \<open>
  A function reference is either a function of the host or of the application (\<open>Host\<close>,
  told apart by a number) or one of the closures \<^verbatim>\<open>start()\<close> creates. Every evaluation of
  a function expression yields a new object, so each closure carries the number of its
  allocation; the two console and fetch wrappers also carry the original they captured.
  A slot holds a function or \<^verbatim>\<open>undefined\<close>.
\<close>

datatype fnref =
    Host nat
  | UncaughtHandler nat
  | BrowserRejectionHandler nat
  | NodeRejectionHandler nat
  | ConsoleErrorPatch nat jsval
  | WindowErrorHandler nat
  | WindowFetchPatch nat jsval
  | GlobalFetchPatch nat jsval
and jsval = Undefined | Fn fnref

text \<open>Truthiness of a slot value: every function is truthy, \<^verbatim>\<open>undefined\<close> is not.\<close>

fun truthy :: "jsval \<Rightarrow> bool" where
  "truthy Undefined = False"
| "truthy (Fn f) = True"

fun closure_id :: "fnref \<Rightarrow> nat option" where
  "closure_id (Host h) = None"
| "closure_id (UncaughtHandler i) = Some i"
| "closure_id (BrowserRejectionHandler i) = Some i"
| "closure_id (NodeRejectionHandler i) = Some i"
| "closure_id (ConsoleErrorPatch i v) = Some i"
| "closure_id (WindowErrorHandler i) = Some i"
| "closure_id (WindowFetchPatch i v) = Some i"
| "closure_id (GlobalFetchPatch i v) = Some i"

text \<open>
  \<^verbatim>\<open>process\<close>: whether it has \<^verbatim>\<open>on\<close> and \<^verbatim>\<open>removeListener\<close>, and the listeners of the two
  events the monitor uses, in the order they were added.
\<close>

record process_obj =
  has_on :: bool
  has_removeListener :: bool
  uncaughtException :: "fnref list"
  unhandledRejection :: "fnref list"

text \<open>\<^verbatim>\<open>window\<close>: the listeners of its two events and its \<^verbatim>\<open>fetch\<close> property.\<close>

record window_obj =
  unhandledrejection :: "fnref list"
  error_listeners :: "fnref list"
  w_fetch :: jsval

record console_obj =
  c_log :: jsval
  c_error :: jsval

text \<open>
  \<^verbatim>\<open>global\<close> is absent (a browser), the same object as \<^verbatim>\<open>window\<close> (a bundler's shim, a
  DOM test environment), or an object of its own with a \<^verbatim>\<open>fetch\<close> property.
\<close>

datatype global_binding = NoGlobal | GlobalIsWindow | GlobalObject jsval

record env =
  process :: "process_obj option"
  window :: "window_obj option"
  console :: "console_obj option"
  global :: global_binding
  next_closure :: nat

text \<open>\<^verbatim>\<open>emitter.on(event, h)\<close> appends; \<^verbatim>\<open>removeListener\<close> removes the instance added last.\<close>

definition emitter_on :: "fnref \<Rightarrow> fnref list \<Rightarrow> fnref list" where
  "emitter_on h ls = ls @ [h]"

definition emitter_removeListener :: "fnref \<Rightarrow> fnref list \<Rightarrow> fnref list" where
  "emitter_removeListener h ls = rev (remove1 h (rev ls))"

text \<open>
  \<^verbatim>\<open>target.addEventListener(type, h)\<close> adds \<open>h\<close> unless it is registered already;
  \<^verbatim>\<open>removeEventListener\<close> takes it out.
\<close>

definition addEventListener :: "fnref \<Rightarrow> fnref list \<Rightarrow> fnref list" where
  "addEventListener h ls = (if h \<in> set ls then ls else ls @ [h])"

definition removeEventListener :: "fnref \<Rightarrow> fnref list \<Rightarrow> fnref list" where
  "removeEventListener h ls = remove1 h ls"

text \<open>Reading and writing \<^verbatim>\<open>global.fetch\<close>; \<^verbatim>\<open>typeof global !== 'undefined'\<close>.\<close>

definition global_defined :: "env \<Rightarrow> bool" where
  "global_defined e =
     (case global e of
        NoGlobal \<Rightarrow> False
      | GlobalIsWindow \<Rightarrow> window e \<noteq> None
      | GlobalObject v \<Rightarrow> True)"

definition global_fetch :: "env \<Rightarrow> jsval" where
  "global_fetch e =
     (case global e of
        NoGlobal \<Rightarrow> Undefined
      | GlobalIsWindow \<Rightarrow> (case window e of None \<Rightarrow> Undefined | Some w \<Rightarrow> w_fetch w)
      | GlobalObject v \<Rightarrow> v)"

definition set_global_fetch :: "jsval \<Rightarrow> env \<Rightarrow> env" where
  "set_global_fetch v e =
     (case global e of
        NoGlobal \<Rightarrow> e
      | GlobalIsWindow \<Rightarrow> e\<lparr>window := map_option (\<lambda>w. w\<lparr>w_fetch := v\<rparr>) (window e)\<rparr>
      | GlobalObject old \<Rightarrow> e\<lparr>global := GlobalObject v\<rparr>)"

section \<open>The monitor\<close>

text \<open>
  A property of an options object is absent, present with the value \<^verbatim>\<open>undefined\<close>, or
  present with a value of its type.
\<close>

datatype 'a field = Absent | Undef | Given 'a

text \<open>
  \<^verbatim>\<open>MonitorOptions\<close>: every field is optional. The index signature's other keys are kept as
  a list of pairs.
\<close>

record MonitorOptions =
  notifier :: "string field"
  endpoint :: "string field"
  enableConsoleErrors :: "bool field"
  enablePromiseRejections :: "bool field"
  enableFunctionWrapping :: "bool field"
  enableFetchMonitoring :: "bool field"
  monitorHttpErrors :: "bool field"
  httpErrorCodes :: "nat list field"
  extra :: "(string \<times> string) list"

definition no_options :: MonitorOptions where
  "no_options =
     \<lparr>notifier = Absent, endpoint = Absent, enableConsoleErrors = Absent,
      enablePromiseRejections = Absent, enableFunctionWrapping = Absent,
      enableFetchMonitoring = Absent, monitorHttpErrors = Absent, httpErrorCodes = Absent,
      extra = []\<rparr>"

text \<open>A toggle read in a condition: only \<^verbatim>\<open>true\<close> is truthy.\<close>

definition enabled :: "bool field \<Rightarrow> bool" where
  "enabled t = (t = Given True)"

text \<open>
  \<^verbatim>\<open>{ ...defaults, ...options }\<close> for one field: the spread copies every property that is
  present, so a field given as \<^verbatim>\<open>undefined\<close> overwrites the default; the default stays
  where the field is absent.
\<close>

definition or_default :: "'a \<Rightarrow> 'a field \<Rightarrow> 'a field" where
  "or_default d given =
     (case given of Absent \<Rightarrow> Given d | Undef \<Rightarrow> Undef | Given v \<Rightarrow> Given v)"

text \<open>The \<^verbatim>\<open>Map<string, any>\<close> of original handlers, in insertion order.\<close>

type_synonym registry = "(string \<times> jsval) list"

fun map_set :: "string \<Rightarrow> jsval \<Rightarrow> registry \<Rightarrow> registry" where
  "map_set k v [] = [(k, v)]"
| "map_set k v ((k', v') # m) = (if k = k' then (k, v) # m else (k', v') # map_set k v m)"

text \<open>\<^verbatim>\<open>map.get(k)\<close>: \<^verbatim>\<open>undefined\<close> for a missing key.\<close>

definition map_get :: "registry \<Rightarrow> string \<Rightarrow> jsval" where
  "map_get m k = (case map_of m k of None \<Rightarrow> Undefined | Some v \<Rightarrow> v)"

record ErrorMonitor =
  apiKey :: string
  options :: MonitorOptions
  originalHandlers :: registry
  isActive :: bool

text \<open>The constructor.\<close>

definition new_ErrorMonitor :: "string \<Rightarrow> MonitorOptions \<Rightarrow> ErrorMonitor" where
  "new_ErrorMonitor key opts =
     \<lparr>apiKey = key,
      options = opts
        \<lparr>endpoint := or_default ''https://your-backend.com/webhook'' (endpoint opts),
         enableConsoleErrors := or_default True (enableConsoleErrors opts),
         enablePromiseRejections := or_default True (enablePromiseRejections opts),
         enableFunctionWrapping := or_default True (enableFunctionWrapping opts),
         enableFetchMonitoring := or_default True (enableFetchMonitoring opts),
         monitorHttpErrors := or_default True (monitorHttpErrors opts),
         httpErrorCodes :=
           or_default [400, 401, 403, 404, 429, 500, 502, 503, 504] (httpErrorCodes opts)\<rparr>,
      originalHandlers = [],
      isActive = False\<rparr>"

section \<open>start() and stop()\<close>

text \<open>
  Both act on the monitor and on the runtime. Each block of \<^verbatim>\<open>start()\<close> is one function
  below, in the order of the source.
\<close>

type_synonym mstate = "ErrorMonitor \<times> env"

definition register :: "string \<Rightarrow> jsval \<Rightarrow> ErrorMonitor \<Rightarrow> ErrorMonitor" where
  "register k v m = m\<lparr>originalHandlers := map_set k v (originalHandlers m)\<rparr>"

definition alloc :: "env \<Rightarrow> env" where
  "alloc e = e\<lparr>next_closure := Suc (next_closure e)\<rparr>"

text \<open>\<^verbatim>\<open>typeof process !== 'undefined' && process.on\<close>\<close>

definition process_on_available :: "env \<Rightarrow> bool" where
  "process_on_available e = (case process e of None \<Rightarrow> False | Some p \<Rightarrow> has_on p)"

definition start_uncaught :: "mstate \<Rightarrow> mstate" where
  "start_uncaught s =
     (case s of (m, e) \<Rightarrow>
        if process_on_available e then
          (let uncaughtHandler = UncaughtHandler (next_closure e)
           in (register ''uncaughtException'' (Fn uncaughtHandler) m,
               alloc (e\<lparr>process := map_option
                  (\<lambda>p. p\<lparr>uncaughtException := emitter_on uncaughtHandler (uncaughtException p)\<rparr>)
                  (process e)\<rparr>)))
        else s)"

definition start_rejections :: "mstate \<Rightarrow> mstate" where
  "start_rejections s =
     (case s of (m, e) \<Rightarrow>
        if enabled (enablePromiseRejections (options m)) then
          (if window e \<noteq> None then
             (let rejectionHandler = BrowserRejectionHandler (next_closure e)
              in (register ''unhandledrejection'' (Fn rejectionHandler) m,
                  alloc (e\<lparr>window := map_option
                     (\<lambda>w. w\<lparr>unhandledrejection :=
                              addEventListener rejectionHandler (unhandledrejection w)\<rparr>)
                     (window e)\<rparr>)))
           else if process_on_available e then
             (let rejectionHandler = NodeRejectionHandler (next_closure e)
              in (register ''unhandledRejection'' (Fn rejectionHandler) m,
                  alloc (e\<lparr>process := map_option
                     (\<lambda>p. p\<lparr>unhandledRejection :=
                              emitter_on rejectionHandler (unhandledRejection p)\<rparr>)
                     (process e)\<rparr>)))
           else s)
        else s)"

definition start_console :: "mstate \<Rightarrow> mstate" where
  "start_console s =
     (case s of (m, e) \<Rightarrow>
        (case console e of
           Some c \<Rightarrow>
             if enabled (enableConsoleErrors (options m)) then
               (let originalError = c_error c
                in (register ''console.error'' originalError m,
                    alloc (e\<lparr>console :=
                      Some (c\<lparr>c_error := Fn (ConsoleErrorPatch (next_closure e) originalError)\<rparr>)\<rparr>)))
             else s
         | None \<Rightarrow> s))"

definition start_window_error :: "mstate \<Rightarrow> mstate" where
  "start_window_error s =
     (case s of (m, e) \<Rightarrow>
        (case window e of
           Some w \<Rightarrow>
             (let errorHandler = WindowErrorHandler (next_closure e)
              in (register ''error'' (Fn errorHandler) m,
                  alloc (e\<lparr>window :=
                    Some (w\<lparr>error_listeners := addEventListener errorHandler (error_listeners w)\<rparr>)\<rparr>)))
         | None \<Rightarrow> s))"

definition start_window_fetch :: "mstate \<Rightarrow> mstate" where
  "start_window_fetch s =
     (case s of (m, e) \<Rightarrow>
        (case window e of
           Some w \<Rightarrow>
             if enabled (enableFetchMonitoring (options m)) \<and> truthy (w_fetch w) then
               (let originalFetch = w_fetch w
                in (register ''fetch'' originalFetch m,
                    alloc (e\<lparr>window :=
                      Some (w\<lparr>w_fetch := Fn (WindowFetchPatch (next_closure e) originalFetch)\<rparr>)\<rparr>)))
             else s
         | None \<Rightarrow> s))"

definition start_global_fetch :: "mstate \<Rightarrow> mstate" where
  "start_global_fetch s =
     (case s of (m, e) \<Rightarrow>
        if enabled (enableFetchMonitoring (options m)) \<and> global_defined e
           \<and> truthy (global_fetch e) then
          (let originalFetch = global_fetch e
           in (register ''global.fetch'' originalFetch m,
               alloc (set_global_fetch
                        (Fn (GlobalFetchPatch (next_closure e) originalFetch)) e)))
        else s)"

definition start :: "mstate \<Rightarrow> mstate" where
  "start s =
     (case s of (m, e) \<Rightarrow>
        if isActive m then s
        else start_global_fetch (start_window_fetch (start_window_error (start_console
               (start_rejections (start_uncaught (m\<lparr>isActive := True\<rparr>, e)))))))"

text \<open>
  \<^verbatim>\<open>stop()\<close>. A handler read from the registry is used when it is truthy; a registered
  handler is always a function reference.
\<close>

definition remove_if :: "jsval \<Rightarrow> (fnref \<Rightarrow> fnref list \<Rightarrow> fnref list) \<Rightarrow> fnref list \<Rightarrow> fnref list" where
  "remove_if handler remove ls = (case handler of Fn h \<Rightarrow> remove h ls | Undefined \<Rightarrow> ls)"

definition stop_process :: "mstate \<Rightarrow> mstate" where
  "stop_process s =
     (case s of (m, e) \<Rightarrow>
        (case process e of
           Some p \<Rightarrow>
             if has_removeListener p then
               (let uncaughtHandler = map_get (originalHandlers m) ''uncaughtException'';
                    rejectionHandler = map_get (originalHandlers m) ''unhandledRejection''
                in (m, e\<lparr>process := Some (p
                     \<lparr>uncaughtException :=
                        remove_if uncaughtHandler emitter_removeListener (uncaughtException p),
                      unhandledRejection :=
                        remove_if rejectionHandler emitter_removeListener (unhandledRejection p)\<rparr>)\<rparr>))
             else s
         | None \<Rightarrow> s))"

definition stop_window :: "mstate \<Rightarrow> mstate" where
  "stop_window s =
     (case s of (m, e) \<Rightarrow>
        (case window e of
           Some w \<Rightarrow>
             (let rejectionHandler = map_get (originalHandlers m) ''unhandledrejection'';
                  errorHandler = map_get (originalHandlers m) ''error''
              in (m, e\<lparr>window := Some (w
                   \<lparr>unhandledrejection :=
                      remove_if rejectionHandler removeEventListener (unhandledrejection w),
                    error_listeners :=
                      remove_if errorHandler removeEventListener (error_listeners w)\<rparr>)\<rparr>))
         | None \<Rightarrow> s))"

definition stop_console :: "mstate \<Rightarrow> mstate" where
  "stop_console s =
     (case s of (m, e) \<Rightarrow>
        (let originalError = map_get (originalHandlers m) ''console.error''
         in (case console e of
               Some c \<Rightarrow>
                 if truthy originalError then (m, e\<lparr>console := Some (c\<lparr>c_error := originalError\<rparr>)\<rparr>)
                 else s
             | None \<Rightarrow> s)))"

definition stop_window_fetch :: "mstate \<Rightarrow> mstate" where
  "stop_window_fetch s =
     (case s of (m, e) \<Rightarrow>
        (let originalFetch = map_get (originalHandlers m) ''fetch''
         in (case window e of
               Some w \<Rightarrow>
                 if truthy originalFetch then (m, e\<lparr>window := Some (w\<lparr>w_fetch := originalFetch\<rparr>)\<rparr>)
                 else s
             | None \<Rightarrow> s)))"

definition stop_global_fetch :: "mstate \<Rightarrow> mstate" where
  "stop_global_fetch s =
     (case s of (m, e) \<Rightarrow>
        (let originalGlobalFetch = map_get (originalHandlers m) ''global.fetch''
         in if truthy originalGlobalFetch \<and> global_defined e
            then (m, set_global_fetch originalGlobalFetch e)
            else s))"

definition clear_handlers :: "mstate \<Rightarrow> mstate" where
  "clear_handlers s = (case s of (m, e) \<Rightarrow> (m\<lparr>originalHandlers := []\<rparr>, e))"

definition stop :: "mstate \<Rightarrow> mstate" where
  "stop s =
     (case s of (m, e) \<Rightarrow>
        if \<not> isActive m then s
        else clear_handlers (stop_global_fetch (stop_window_fetch (stop_console
               (stop_window (stop_process (m\<lparr>isActive := False\<rparr>, e)))))))"

section \<open>reportError\<close>

datatype errorType = Uncaught | Promise | Manual

text \<open>An \<^verbatim>\<open>Error\<close> object, as far as \<^verbatim>\<open>reportError\<close> reads it, and its argument \<^verbatim>\<open>Error | string\<close>.\<close>

record js_error =
  message :: string
  stack :: "string option"

datatype err_arg = ErrObj js_error | ErrStr string

text \<open>\<^verbatim>\<open>ErrorPayload\<close>\<close>

record ErrorPayload =
  p_event :: string
  p_error :: string
  p_stack :: "string option"
  p_file :: "string option"
  p_function :: "string option"
  p_line :: "string option"
  p_col :: "string option"
  p_data :: MonitorOptions
  p_timestamp :: string
  p_errorType :: errorType

text \<open>The call of the transport: the URL and the \<^verbatim>\<open>init\<close> object passed to \<^verbatim>\<open>fetch\<close>.\<close>

record request =
  r_url :: "string field"
  r_method :: string
  r_authorization :: string
  r_contentType :: string
  r_body :: ErrorPayload

text \<open>
  What can be thrown inside \<^verbatim>\<open>reportError\<close>: a \<^verbatim>\<open>ReferenceError\<close> for a missing global, a
  \<^verbatim>\<open>TypeError\<close> for a call of a non-function, the error the function itself creates for a
  response that is not ok, an \<^verbatim>\<open>Error\<close> object coming from the host (a host function, the
  serialiser, the transport) and any other value coming from there.
\<close>

datatype exn =
    ReferenceError string
  | TypeError string
  | ReportingFailed nat
  | HostError nat
  | HostValue nat

fun instanceof_Error :: "exn \<Rightarrow> bool" where
  "instanceof_Error (HostValue v) = False"
| "instanceof_Error x = True"

text \<open>
  The transport (\<^verbatim>\<open>fetch\<close> imported from the HTTP client library, not the patched global):
  it throws at the call, returns a promise that rejects, or a response with a status.
\<close>

datatype transport = TransportThrows exn | TransportRejects exn | TransportResponds nat

text \<open>\<^verbatim>\<open>response.ok\<close>: the status is in the range 200 to 299.\<close>

definition ok :: "nat \<Rightarrow> bool" where
  "ok status = (200 \<le> status \<and> status \<le> 299)"

text \<open>
  What the function does not decide itself: which host functions throw when called, the
  stack the runtime gives to an error created from a string, the clock, whether the
  payload can be serialised, and the transport.
\<close>

record world =
  host_throws :: "nat \<Rightarrow> bool"
  fresh_stack :: "string option"
  now :: string
  stringify :: "exn option"
  transport :: transport

text \<open>The observable steps of a call.\<close>

datatype call_args = LogArgs ErrorPayload | ErrorArgs exn

datatype effect =
    HostCalled nat call_args
  | ReportIssued nat string exn
  | ClosureCalled nat
  | FetchCalled request

text \<open>
  Calling the function in a console slot. A host function throws or returns. The
  console wrapper installed by \<^verbatim>\<open>start()\<close> calls the original first, and then reports if
  the first argument is a string and the second an \<^verbatim>\<open>Error\<close>: that is the case for the
  call in the catch block of \<^verbatim>\<open>reportError\<close>, and not for its \<^verbatim>\<open>console.log\<close> call, whose
  second argument is the payload. The report is not awaited. The other closures are
  never stored in a console slot; they return without throwing. The first argument is
  written here without its leading emoji.
\<close>

definition first_arg :: "call_args \<Rightarrow> string" where
  "first_arg a =
     (case a of
        LogArgs p \<Rightarrow> ''Error Monitor - Reporting issue:''
      | ErrorArgs x \<Rightarrow> ''Error Monitor - Failed to report error:'')"

definition console_patch_reports :: "nat \<Rightarrow> call_args \<Rightarrow> effect list" where
  "console_patch_reports i a =
     (case a of
        LogArgs p \<Rightarrow> []
      | ErrorArgs x \<Rightarrow> if instanceof_Error x then [ReportIssued i (first_arg a) x] else [])"

fun call_fn :: "(nat \<Rightarrow> bool) \<Rightarrow> fnref \<Rightarrow> call_args \<Rightarrow> exn option \<times> effect list"
  and call_val :: "(nat \<Rightarrow> bool) \<Rightarrow> jsval \<Rightarrow> call_args \<Rightarrow> exn option \<times> effect list" where
  "call_fn th (Host h) a = (if th h then (Some (HostError h), []) else (None, [HostCalled h a]))"
| "call_fn th (ConsoleErrorPatch i originalError) a =
     (case call_val th originalError a of
        (Some x, tr) \<Rightarrow> (Some x, tr)
      | (None, tr) \<Rightarrow> (None, tr @ console_patch_reports i a))"
| "call_fn th (UncaughtHandler i) a = (None, [ClosureCalled i])"
| "call_fn th (BrowserRejectionHandler i) a = (None, [ClosureCalled i])"
| "call_fn th (NodeRejectionHandler i) a = (None, [ClosureCalled i])"
| "call_fn th (WindowErrorHandler i) a = (None, [ClosureCalled i])"
| "call_fn th (WindowFetchPatch i v) a = (None, [ClosureCalled i])"
| "call_fn th (GlobalFetchPatch i v) a = (None, [ClosureCalled i])"
| "call_val th Undefined a = (Some (TypeError ''not a function''), [])"
| "call_val th (Fn f) a = call_fn th f a"

text \<open>\<^verbatim>\<open>console.log(...)\<close> and \<^verbatim>\<open>console.error(...)\<close>: the global \<^verbatim>\<open>console\<close> may be missing.\<close>

definition console_call ::
  "env \<Rightarrow> world \<Rightarrow> (console_obj \<Rightarrow> jsval) \<Rightarrow> call_args \<Rightarrow> exn option \<times> effect list" where
  "console_call e w slot a =
     (case console e of
        None \<Rightarrow> (Some (ReferenceError ''console''), [])
      | Some c \<Rightarrow> call_val (host_throws w) (slot c) a)"

definition build_payload ::
  "ErrorMonitor \<Rightarrow> world \<Rightarrow> string \<Rightarrow> err_arg \<Rightarrow> errorType \<Rightarrow> ErrorPayload" where
  "build_payload m w event err ty =
     (let errorObj = (case err of
                        ErrObj x \<Rightarrow> x
                      | ErrStr s \<Rightarrow> \<lparr>message = s, stack = fresh_stack w\<rparr>);
          f = extract_frame (stack errorObj)
      in \<lparr>p_event = event, p_error = message errorObj, p_stack = stack errorObj,
          p_file = fileName f, p_function = functionName f, p_line = line f, p_col = col f,
          p_data = options m, p_timestamp = now w, p_errorType = ty\<rparr>)"

definition build_request :: "ErrorMonitor \<Rightarrow> ErrorPayload \<Rightarrow> request" where
  "build_request m payload =
     \<lparr>r_url = endpoint (options m), r_method = ''POST'',
      r_authorization = ''Bearer '' @ apiKey m, r_contentType = ''application/json'',
      r_body = payload\<rparr>"

text \<open>The \<^verbatim>\<open>try\<close> block: what it throws, if anything, and what it did.\<close>

definition report_try ::
  "ErrorMonitor \<Rightarrow> env \<Rightarrow> world \<Rightarrow> string \<Rightarrow> err_arg \<Rightarrow> errorType \<Rightarrow> exn option \<times> effect list" where
  "report_try m e w event err ty =
     (let payload = build_payload m w event err ty
      in (case console_call e w c_log (LogArgs payload) of
            (Some x, tr) \<Rightarrow> (Some x, tr)
          | (None, tr) \<Rightarrow>
              (case stringify w of
                 Some x \<Rightarrow> (Some x, tr)
               | None \<Rightarrow>
                   (let called = tr @ [FetchCalled (build_request m payload)]
                    in (case transport w of
                          TransportThrows x \<Rightarrow> (Some x, called)
                        | TransportRejects x \<Rightarrow> (Some x, called)
                        | TransportResponds status \<Rightarrow>
                            if \<not> ok status then (Some (ReportingFailed status), called)
                            else (None, called))))))"

text \<open>
  The function is \<^verbatim>\<open>async\<close>: whatever happens inside, the caller gets a promise. The
  promise is fulfilled when the \<^verbatim>\<open>try\<close> block completes or the \<^verbatim>\<open>catch\<close> block does, and it
  rejects with what the \<^verbatim>\<open>catch\<close> block throws.
\<close>

datatype promise_result = Resolved | RejectedWith exn

definition reportError ::
  "ErrorMonitor \<Rightarrow> env \<Rightarrow> world \<Rightarrow> string \<Rightarrow> err_arg \<Rightarrow> errorType
     \<Rightarrow> promise_result \<times> effect list" where
  "reportError m e w event err ty =
     (case report_try m e w event err ty of
        (None, tr) \<Rightarrow> (Resolved, tr)
      | (Some reportErr, tr) \<Rightarrow>
          (case console_call e w c_error (ErrorArgs reportErr) of
             (None, tr') \<Rightarrow> (Resolved, tr @ tr')
           | (Some x, tr') \<Rightarrow> (RejectedWith x, tr @ tr')))"

section \<open>wrapFunction\<close>

text \<open>
  What a function can throw: a value of the application, or the \<^verbatim>\<open>TypeError\<close> the runtime
  raises when \<^verbatim>\<open>result.catch\<close> is called and is not a function.
\<close>

datatype 'x thrown = Thrown 'x | CatchNotCallable

text \<open>
  How a call of a function ends. It returns a value the wrapper does not take for a
  promise (falsy, or without a callable \<^verbatim>\<open>then\<close>); it returns a promise, given here by how
  the promise settles; it returns a value with a callable \<^verbatim>\<open>then\<close> and no callable
  \<^verbatim>\<open>catch\<close>; or it throws. An object with both methods is taken to be a promise.
\<close>

datatype ('v, 'x) settled = Fulfilled 'v | Rejected 'x

datatype ('v, 'x) completion =
    Return 'v
  | ReturnPromise "('v, 'x) settled"
  | ReturnThenable 'v
  | Throw 'x

record ('a, 'v, 'x) js_function =
  fn_name :: string
  fn_apply :: "'a \<Rightarrow> ('v, 'x thrown) completion"

text \<open>A call \<^verbatim>\<open>monitor.reportError(event, error, 'manual')\<close> made by a wrapper.\<close>

record 'x report_call =
  rc_monitor :: ErrorMonitor
  rc_event :: string
  rc_error :: "'x thrown"
  rc_errorType :: errorType

text \<open>\<^verbatim>\<open>functionName || fn.name || fallback\<close>: the first non-empty string.\<close>

definition event_label :: "string option \<Rightarrow> string \<Rightarrow> string \<Rightarrow> string" where
  "event_label label name fallback =
     (case label of
        Some n \<Rightarrow> if n \<noteq> [] then n else if name \<noteq> [] then name else fallback
      | None \<Rightarrow> if name \<noteq> [] then name else fallback)"

record ('a, 'v, 'x) wrapped_function =
  wf_name :: string
  wf_apply :: "'a \<Rightarrow> ('v, 'x thrown) completion \<times> 'x report_call list"

text \<open>
  A handler of the wrapper: \<^verbatim>\<open>monitor.reportError(label, error, 'manual')\<close>, not awaited,
  then \<^verbatim>\<open>throw error\<close>. The result is what it throws and the reports it made.
\<close>

definition report_and_rethrow ::
  "ErrorMonitor \<Rightarrow> string \<Rightarrow> 'x thrown \<Rightarrow> 'x thrown \<times> 'x report_call list" where
  "report_and_rethrow monitor event error =
     (error,
      [\<lparr>rc_monitor = monitor, rc_event = event, rc_error = error, rc_errorType = Manual\<rparr>])"

text \<open>
  \<^verbatim>\<open>promise.catch(onRejected)\<close> with a handler that ends by throwing: a fulfilled promise
  passes its value on and the handler does not run; for a rejected one the handler runs,
  and the new promise rejects with what the handler throws.
\<close>

definition promise_catch ::
  "('v, 'x thrown) settled \<Rightarrow> ('x thrown \<Rightarrow> 'x thrown \<times> 'x report_call list)
     \<Rightarrow> ('v, 'x thrown) settled \<times> 'x report_call list" where
  "promise_catch p onRejected =
     (case p of
        Fulfilled v \<Rightarrow> (Fulfilled v, [])
      | Rejected reason \<Rightarrow> (case onRejected reason of (x, rs) \<Rightarrow> (Rejected x, rs)))"

text \<open>
  The \<^verbatim>\<open>try\<close> block of the wrapper. A result with a callable \<^verbatim>\<open>then\<close> gets
  \<^verbatim>\<open>result.catch(...)\<close> called on it: on a promise that attaches the handler, on a value
  without a callable \<^verbatim>\<open>catch\<close> the call throws.
\<close>

definition wrapped_try ::
  "ErrorMonitor \<Rightarrow> ('a, 'v, 'x) js_function \<Rightarrow> string option \<Rightarrow> 'a
     \<Rightarrow> ('v, 'x thrown) completion \<times> 'x report_call list" where
  "wrapped_try monitor fn label args =
     (case fn_apply fn args of
        Throw error \<Rightarrow> (Throw error, [])
      | ReturnPromise result \<Rightarrow>
          (case promise_catch result
                  (report_and_rethrow monitor
                     (event_label label (fn_name fn) ''anonymous_async_function'')) of
             (p, rs) \<Rightarrow> (ReturnPromise p, rs))
      | ReturnThenable result \<Rightarrow> (Throw CatchNotCallable, [])
      | Return result \<Rightarrow> (Return result, []))"

text \<open>
  The wrapper: the \<^verbatim>\<open>try\<close> block, and the \<^verbatim>\<open>catch\<close> block for whatever it throws; then
  \<^verbatim>\<open>Object.defineProperty(wrappedFunction, 'name', { value: fn.name })\<close>.
\<close>

definition wrapFunction ::
  "ErrorMonitor \<Rightarrow> ('a, 'v, 'x) js_function \<Rightarrow> string option \<Rightarrow> ('a, 'v, 'x) wrapped_function" where
  "wrapFunction monitor fn label =
     \<lparr>wf_name = fn_name fn,
      wf_apply = (\<lambda>args.
        (case wrapped_try monitor fn label args of
           (Throw error, rs) \<Rightarrow>
             (case report_and_rethrow monitor
                     (event_label label (fn_name fn) ''anonymous_function'') error of
                (x, rs') \<Rightarrow> (Throw x, rs @ rs'))
         | (result, rs) \<Rightarrow> (result, rs)))\<rparr>"

section \<open>The module: one global monitor\<close>

text \<open>
  Monitors are objects: the module state holds every monitor created through the
  module's functions, the variable \<^verbatim>\<open>globalMonitor\<close> (a reference or \<^verbatim>\<open>null\<close>) and the
  runtime.
\<close>

record module_state =
  monitors :: "ErrorMonitor list"
  globalMonitor :: "nat option"
  runtime :: env

text \<open>Calling a method that changes the monitor and the runtime on the object at \<open>i\<close>.\<close>

definition on_monitor :: "nat \<Rightarrow> (mstate \<Rightarrow> mstate) \<Rightarrow> module_state \<Rightarrow> module_state" where
  "on_monitor i method st =
     (if i < length (monitors st) then
        (case method (monitors st ! i, runtime st) of
           (m', e') \<Rightarrow> st\<lparr>monitors := (monitors st)[i := m'], runtime := e'\<rparr>)
      else st)"

text \<open>\<^verbatim>\<open>monitor(apiKey, options)\<close>; the result is the new state and the reference returned.\<close>

definition monitor :: "string \<Rightarrow> MonitorOptions \<Rightarrow> module_state \<Rightarrow> module_state \<times> nat" where
  "monitor key opts st =
     (let st1 = (case globalMonitor st of Some g \<Rightarrow> on_monitor g stop st | None \<Rightarrow> st);
          r = length (monitors st1);
          st2 = st1\<lparr>monitors := monitors st1 @ [new_ErrorMonitor key opts],
                    globalMonitor := Some r\<rparr>
      in (on_monitor r start st2, r))"

definition stopMonitoring :: "module_state \<Rightarrow> module_state" where
  "stopMonitoring st =
     (case globalMonitor st of
        Some g \<Rightarrow> (on_monitor g stop st)\<lparr>globalMonitor := None\<rparr>
      | None \<Rightarrow> st)"

definition getMonitor :: "module_state \<Rightarrow> nat option" where
  "getMonitor st = globalMonitor st"

text \<open>
  \<^verbatim>\<open>issueUpdate(apiKey, event, err, data)\<close>: the promise it returns, what the call did, and
  the module state after it. The temporary monitor is a local variable. A reference
  held by \<^verbatim>\<open>globalMonitor\<close> always points to an object; the branch for an index without
  an object is there to make the function total.
\<close>

definition issueUpdate ::
  "string \<Rightarrow> string \<Rightarrow> err_arg \<Rightarrow> MonitorOptions \<Rightarrow> world \<Rightarrow> module_state
     \<Rightarrow> (promise_result \<times> effect list) \<times> module_state" where
  "issueUpdate key event err data w st =
     (case globalMonitor st of
        Some g \<Rightarrow>
          (if g < length (monitors st)
           then (reportError (monitors st ! g) (runtime st) w event err Manual, st)
           else ((RejectedWith (TypeError ''reportError''), []), st))
      | None \<Rightarrow>
          (let tempMonitor = new_ErrorMonitor key data
           in (reportError tempMonitor (runtime st) w event err Manual, st)))"

section \<open>Notions used to state the properties\<close>

text \<open>What a stack line yields by itself, and whether it is a frame line at all.\<close>

definition frame_of_line :: "string \<Rightarrow> frame" where
  "frame_of_line l = match_line l no_frame"

definition is_frame :: "string \<Rightarrow> bool" where
  "is_frame l = (fileName (frame_of_line l) \<noteq> None)"

text \<open>Two results name the same place: file, line and column agree.\<close>

definition same_position :: "frame \<Rightarrow> frame \<Rightarrow> bool" where
  "same_position r f = (fileName r = fileName f \<and> line r = line f \<and> col r = col f)"

definition one_line :: "string \<Rightarrow> bool" where
  "one_line l = (CHR 0x0A \<notin> set l)"

text \<open>A monitor that was never started or has been stopped.\<close>

definition idle :: "ErrorMonitor \<Rightarrow> bool" where
  "idle m = (\<not> isActive m \<and> originalHandlers m = [])"

text \<open>
  A closure allocated from now on is none of the listeners already registered: the
  closures among them were allocated earlier.
\<close>

definition older_than :: "nat \<Rightarrow> fnref list \<Rightarrow> bool" where
  "older_than n ls = list_all (\<lambda>f. case closure_id f of None \<Rightarrow> True | Some i \<Rightarrow> i < n) ls"

definition listeners_older :: "env \<Rightarrow> bool" where
  "listeners_older e =
     (case window e of
        None \<Rightarrow> True
      | Some w \<Rightarrow> older_than (next_closure e) (unhandledrejection w)
                  \<and> older_than (next_closure e) (error_listeners w))"

text \<open>
  The runtimes on which a round trip can be expected: \<^verbatim>\<open>global\<close> and \<^verbatim>\<open>window\<close> are not one
  object, \<^verbatim>\<open>console.error\<close> is a function, and a \<^verbatim>\<open>process\<close> with \<^verbatim>\<open>on\<close> has
  \<^verbatim>\<open>removeListener\<close> too.
\<close>

definition separate_globals :: "env \<Rightarrow> bool" where
  "separate_globals e = (global e \<noteq> GlobalIsWindow)"

definition console_error_callable :: "env \<Rightarrow> bool" where
  "console_error_callable e = (case console e of None \<Rightarrow> True | Some c \<Rightarrow> truthy (c_error c))"

definition listeners_removable :: "env \<Rightarrow> bool" where
  "listeners_removable e =
     (case process e of None \<Rightarrow> True | Some p \<Rightarrow> has_on p \<longrightarrow> has_removeListener p)"

text \<open>The slots \<^verbatim>\<open>start()\<close> patches: everything in the runtime but the allocation count.\<close>

definition same_slots :: "env \<Rightarrow> env \<Rightarrow> bool" where
  "same_slots e e' =
     (process e' = process e \<and> window e' = window e \<and> console e' = console e
      \<and> global e' = global e)"

text \<open>
  The module's discipline: an active monitor is the one \<^verbatim>\<open>globalMonitor\<close> refers to, and
  the reference points to an object.
\<close>

definition single_active :: "module_state \<Rightarrow> bool" where
  "single_active st =
     ((\<forall>i < length (monitors st). isActive (monitors st ! i) \<longrightarrow> globalMonitor st = Some i)
      \<and> (case globalMonitor st of None \<Rightarrow> True | Some g \<Rightarrow> g < length (monitors st)))"

text \<open>No monitor is active.\<close>

definition all_inactive :: "module_state \<Rightarrow> bool" where
  "all_inactive st = (\<forall>i < length (monitors st). \<not> isActive (monitors st ! i))"

text \<open>The states the module's functions reach from a fresh module.\<close>

inductive reachable :: "module_state \<Rightarrow> bool" where
  fresh: "reachable \<lparr>monitors = [], globalMonitor = None, runtime = e\<rparr>"
| by_monitor: "reachable st \<Longrightarrow> reachable (fst (monitor key opts st))"
| by_stopMonitoring: "reachable st \<Longrightarrow> reachable (stopMonitoring st)"
| by_issueUpdate: "reachable st \<Longrightarrow> reachable (snd (issueUpdate key event err data w st))"

text \<open>Whether the two fetch blocks of \<^verbatim>\<open>start()\<close> patch their slot.\<close>

definition window_fetch_patched :: "mstate \<Rightarrow> bool" where
  "window_fetch_patched s =
     (enabled (enableFetchMonitoring (options (fst s)))
      \<and> (case window (snd s) of None \<Rightarrow> False | Some w \<Rightarrow> truthy (w_fetch w)))"

definition global_fetch_patched :: "mstate \<Rightarrow> bool" where
  "global_fetch_patched s =
     (enabled (enableFetchMonitoring (options (fst s))) \<and> global_defined (snd s)
      \<and> truthy (global_fetch (snd s)))"

text \<open>The state between two blocks of \<^verbatim>\<open>start()\<close>, for the allocation numbers.\<close>

definition after_uncaught :: "ErrorMonitor \<Rightarrow> env \<Rightarrow> mstate" where
  "after_uncaught m e = start_uncaught (m\<lparr>isActive := True\<rparr>, e)"

definition after_console :: "ErrorMonitor \<Rightarrow> env \<Rightarrow> mstate" where
  "after_console m e = start_console (start_rejections (after_uncaught m e))"

definition after_window_fetch :: "ErrorMonitor \<Rightarrow> env \<Rightarrow> mstate" where
  "after_window_fetch m e = start_window_fetch (start_window_error (after_console m e))"

text \<open>The keys \<^verbatim>\<open>start()\<close> uses in the registry.\<close>

definition hook_names :: "string set" where
  "hook_names = {''uncaughtException'', ''unhandledRejection'', ''unhandledrejection'',
                 ''console.error'', ''error'', ''fetch'', ''global.fetch''}"

section \<open>Example runtimes and calls\<close>

text \<open>A server runtime: \<^verbatim>\<open>process\<close>, \<^verbatim>\<open>console\<close> and a global object with \<^verbatim>\<open>fetch\<close>.\<close>

definition node_env :: env where
  "node_env =
     \<lparr>process = Some \<lparr>has_on = True, has_removeListener = True,
                       uncaughtException = [Host 7], unhandledRejection = []\<rparr>,
      window = None,
      console = Some \<lparr>c_log = Fn (Host 1), c_error = Fn (Host 2)\<rparr>,
      global = GlobalObject (Fn (Host 3)),
      next_closure = 0\<rparr>"

text \<open>A page: \<^verbatim>\<open>window\<close> with \<^verbatim>\<open>fetch\<close> and a listener of the application, and \<^verbatim>\<open>console\<close>.\<close>

definition browser_env :: env where
  "browser_env =
     \<lparr>process = None,
      window = Some \<lparr>unhandledrejection = [], error_listeners = [Host 8], w_fetch = Fn (Host 3)\<rparr>,
      console = Some \<lparr>c_log = Fn (Host 1), c_error = Fn (Host 2)\<rparr>,
      global = NoGlobal,
      next_closure = 0\<rparr>"

text \<open>The same page bundled with a shim that makes \<^verbatim>\<open>global\<close> the window object.\<close>

definition shim_env :: env where
  "shim_env = browser_env\<lparr>global := GlobalIsWindow\<rparr>"

text \<open>A runtime without \<^verbatim>\<open>console\<close>, the case \<^verbatim>\<open>start()\<close> and \<^verbatim>\<open>stop()\<close> test for.\<close>

definition bare_env :: env where
  "bare_env =
     \<lparr>process = None, window = None, console = None, global = NoGlobal, next_closure = 0\<rparr>"

definition example_monitor :: ErrorMonitor where
  "example_monitor = new_ErrorMonitor ''key'' no_options"

text \<open>A fresh module on the server runtime, and the module after \<^verbatim>\<open>monitor("key")\<close>.\<close>

definition fresh_module :: module_state where
  "fresh_module = \<lparr>monitors = [], globalMonitor = None, runtime = node_env\<rparr>"

definition one_monitor :: module_state where
  "one_monitor = fst (monitor ''key'' no_options fresh_module)"

definition all_disabled :: MonitorOptions where
  "all_disabled =
     no_options\<lparr>enableConsoleErrors := Given False, enablePromiseRejections := Given False,
                enableFunctionWrapping := Given False, enableFetchMonitoring := Given False,
                monitorHttpErrors := Given False\<rparr>"

text \<open>A world where the webhook answers 200, and one where it answers 500.\<close>

definition webhook_up :: world where
  "webhook_up =
     \<lparr>host_throws = (\<lambda>h. False), fresh_stack = Some ''Error: boom'', now = ''2024-01-01T00:00:00.000Z'',
      stringify = None, transport = TransportResponds 200\<rparr>"

definition webhook_down :: world where
  "webhook_down = webhook_up\<lparr>transport := TransportResponds 500\<rparr>"

text \<open>
  A function that throws on 0, returns a rejecting promise on 1 and a number otherwise,
  and one that returns an object with a \<^verbatim>\<open>then\<close> method and no \<^verbatim>\<open>catch\<close> method.
\<close>

definition example_fn :: "(nat, nat, string) js_function" where
  "example_fn =
     \<lparr>fn_name = ''lookup'',
      fn_apply = (\<lambda>n. if n = 0 then Throw (Thrown ''zero'')
                       else if n = 1 then ReturnPromise (Rejected (Thrown ''one''))
                       else Return n)\<rparr>"

definition thenable_fn :: "(nat, nat, string) js_function" where
  "thenable_fn = \<lparr>fn_name = ''query'', fn_apply = (\<lambda>n. ReturnThenable n)\<rparr>"

text \<open>Stack texts, line by line.\<close>

definition spec_stack :: string where
  "spec_stack = join_nl [''Error: x'', ''    at foo (/app/a.js:10:5)'']"

definition vendor_stack :: string where
  "vendor_stack =
     join_nl [''Error: x'',
              ''    at a (/app/node_modules/p/a.js:1:2)'',
              ''    at b (/app/node_modules/q/b.js:3:4)'']"

section \<open>Stack-frame extraction: properties\<close>

lemma split_nl_one_line: "one_line l \<Longrightarrow> split_nl l = [l]"
  by (induction l) (auto simp: one_line_def)

lemma split_nl_append: "one_line l \<Longrightarrow> split_nl (l @ CHR 0x0A # s) = l # split_nl s"
  by (induction l) (auto simp: one_line_def)

lemma split_join: "ls \<noteq> [] \<Longrightarrow> \<forall>l\<in>set ls. one_line l \<Longrightarrow> split_nl (join_nl ls) = ls"
  by (induction ls rule: join_nl.induct) (auto simp: split_nl_one_line split_nl_append)

lemma extract_frame_lines:
  "\<forall>l\<in>set (hdr # ls). one_line l \<Longrightarrow>
   extract_frame (Some (join_nl (hdr # ls))) = scan_frames ls no_frame"
  using split_join [of "hdr # ls"] by (simp add: extract_frame_def stack_lines_def)

text \<open>A line sets the position if it is a frame line and leaves it alone otherwise.\<close>

lemma match_line_position:
  "same_position (match_line l f) (if is_frame l then frame_of_line l else f)"
  by (auto simp: match_line_def frame_of_line_def is_frame_def no_frame_def same_position_def
      split: option.splits list.splits)

lemma match_line_not_frame: "\<not> is_frame l \<Longrightarrow> match_line l f = f"
  by (auto simp: match_line_def frame_of_line_def is_frame_def no_frame_def
      split: option.splits list.splits)

text \<open>The function name survives a line of the second shape: it is set by the first only.\<close>

lemma match_line_function:
  "functionName (match_line l f) =
     (case functionName (frame_of_line l) of None \<Rightarrow> functionName f | Some n \<Rightarrow> Some n)"
  by (auto simp: match_line_def frame_of_line_def no_frame_def
      split: option.splits list.splits)

lemma match_line_with_function:
  "functionName (frame_of_line l) \<noteq> None \<Longrightarrow> match_line l f = frame_of_line l"
  by (auto simp: match_line_def frame_of_line_def no_frame_def
      split: option.splits list.splits)

lemma meaningful_position: "same_position r f \<Longrightarrow> meaningful r = meaningful f"
  by (simp add: meaningful_def same_position_def)

lemma meaningful_is_frame: "meaningful (frame_of_line l) \<Longrightarrow> is_frame l"
  by (auto simp: meaningful_def is_frame_def split: option.splits)

lemma meaningful_match_line:
  "meaningful (match_line l f) =
     (if is_frame l then meaningful (frame_of_line l) else meaningful f)"
  using meaningful_position [OF match_line_position [of l f]] by simp

lemma not_meaningful_no_frame: "\<not> meaningful no_frame"
  by (simp add: meaningful_def no_frame_def)

text \<open>As long as no line is meaningful the loop runs on, and each line overwrites.\<close>

lemma scan_frames_skip:
  "\<not> meaningful f \<Longrightarrow> \<forall>x\<in>set pre. \<not> meaningful (frame_of_line x) \<Longrightarrow>
   scan_frames (pre @ later) f = scan_frames later (foldl (\<lambda>f l. match_line l f) f pre)
   \<and> \<not> meaningful (foldl (\<lambda>f l. match_line l f) f pre)"
proof (induction pre arbitrary: f)
  case Nil
  then show ?case by simp
next
  case (Cons x pre)
  have "\<not> meaningful (match_line x f)"
    using Cons.prems by (simp add: meaningful_match_line)
  with Cons show ?case by (simp add: Let_def)
qed

lemma foldl_not_frames:
  "\<forall>x\<in>set post. \<not> is_frame x \<Longrightarrow> foldl (\<lambda>f l. match_line l f) f post = f"
  by (induction post arbitrary: f) (auto simp: match_line_not_frame)

lemma scan_last_frame:
  assumes "\<forall>x\<in>set (pre @ l # post). \<not> meaningful (frame_of_line x)"
    and "is_frame l" and "\<forall>x\<in>set post. \<not> is_frame x"
  shows "same_position (scan_frames (pre @ l # post) no_frame) (frame_of_line l)"
proof -
  let ?step = "\<lambda>f l. match_line l f"
  have "scan_frames ((pre @ l # post) @ []) no_frame = foldl ?step no_frame (pre @ l # post)"
    using scan_frames_skip [OF not_meaningful_no_frame assms(1), of "[]"] by simp
  also have "\<dots> = match_line l (foldl ?step no_frame pre)"
    using assms(3) by (simp add: foldl_not_frames)
  finally show ?thesis
    using match_line_position [of l "foldl ?step no_frame pre"] assms(2) by simp
qed

lemma scan_first_meaningful:
  assumes "\<forall>x\<in>set pre. \<not> meaningful (frame_of_line x)" and "meaningful (frame_of_line g)"
  shows "scan_frames (pre @ g # post) no_frame = match_line g (scan_frames pre no_frame)"
proof -
  let ?step = "\<lambda>f l. match_line l f"
  have a: "scan_frames (pre @ g # post) no_frame
             = scan_frames (g # post) (foldl ?step no_frame pre)"
    using scan_frames_skip [OF not_meaningful_no_frame assms(1)] by simp
  have b: "scan_frames pre no_frame = foldl ?step no_frame pre"
    using scan_frames_skip [OF not_meaningful_no_frame assms(1), of "[]"] by simp
  have "meaningful (match_line g (foldl ?step no_frame pre))"
    using assms(2) meaningful_is_frame [OF assms(2)] by (simp add: meaningful_match_line)
  then show ?thesis using a b by (simp add: Let_def)
qed

lemma extract_frame_empty:
  "extract_frame (Some []) = no_frame" "extract_frame None = no_frame"
  by (simp_all add: extract_frame_def stack_lines_def)

lemma extract_frame_spec_stack:
  "extract_frame (Some spec_stack) =
     \<lparr>functionName = Some ''foo'', fileName = Some ''/app/a.js'',
      line = Some ''10'', col = Some ''5''\<rparr>"
  by code_simp

text \<open>
  Claim C4, as the spec states it, on a stack whose two frames are both under
  \<^verbatim>\<open>node_modules\<close>: the extraction does not fall back to the first matching frame; it
  returns the last one.
\<close>

theorem vendor_stack_last_frame:
  "extract_frame (Some vendor_stack) =
     \<lparr>functionName = Some ''b'', fileName = Some ''/app/node_modules/q/b.js'',
      line = Some ''3'', col = Some ''4''\<rparr>
   \<and> extract_frame (Some vendor_stack) \<noteq> frame_of_line ''    at a (/app/node_modules/p/a.js:1:2)''
   \<and> is_frame ''    at a (/app/node_modules/p/a.js:1:2)''"
  by code_simp

text \<open>
  Claim C4, amended. The stack text of the spec yields function \<^verbatim>\<open>foo\<close>, file
  \<^verbatim>\<open>/app/a.js\<close>, line \<^verbatim>\<open>10\<close> and column \<^verbatim>\<open>5\<close>. When no frame line of the stack has a
  meaningful file (every file is empty or contains \<^verbatim>\<open>node_modules\<close> or \<^verbatim>\<open>internal/\<close>), the
  result has the file, line and column of the last frame line, not of the first. A frame
  line with a meaningful file that comes after lines without one ends the scan: the
  result has its file, line and column, whatever follows, and is exactly the frame of
  that line if the line names a function. An empty or absent stack leaves all four
  fields unset.
\<close>

theorem stack_extraction:
  "extract_frame (Some spec_stack) =
     \<lparr>functionName = Some ''foo'', fileName = Some ''/app/a.js'',
      line = Some ''10'', col = Some ''5''\<rparr>
   \<and> (\<forall>hdr pre l post.
        (\<forall>x\<in>set (hdr # pre @ l # post). one_line x)
        \<and> (\<forall>x\<in>set (pre @ l # post). \<not> meaningful (frame_of_line x))
        \<and> is_frame l \<and> (\<forall>x\<in>set post. \<not> is_frame x)
        \<longrightarrow> same_position (extract_frame (Some (join_nl (hdr # pre @ l # post))))
              (frame_of_line l))
   \<and> (\<forall>hdr pre g post.
        (\<forall>x\<in>set (hdr # pre @ g # post). one_line x)
        \<and> (\<forall>x\<in>set pre. \<not> meaningful (frame_of_line x))
        \<and> meaningful (frame_of_line g)
        \<longrightarrow> same_position (extract_frame (Some (join_nl (hdr # pre @ g # post))))
              (frame_of_line g)
            \<and> (functionName (frame_of_line g) \<noteq> None \<longrightarrow>
                 extract_frame (Some (join_nl (hdr # pre @ g # post))) = frame_of_line g))
   \<and> extract_frame (Some []) = no_frame \<and> extract_frame None = no_frame"
proof (intro conjI allI impI)
  show "extract_frame (Some spec_stack) =
     \<lparr>functionName = Some ''foo'', fileName = Some ''/app/a.js'',
      line = Some ''10'', col = Some ''5''\<rparr>"
    by (rule extract_frame_spec_stack)
next
  fix hdr pre l post
  assume h: "(\<forall>x\<in>set (hdr # pre @ l # post). one_line x)
        \<and> (\<forall>x\<in>set (pre @ l # post). \<not> meaningful (frame_of_line x))
        \<and> is_frame l \<and> (\<forall>x\<in>set post. \<not> is_frame x)"
  then have "extract_frame (Some (join_nl (hdr # pre @ l # post)))
               = scan_frames (pre @ l # post) no_frame"
    using extract_frame_lines [of hdr "pre @ l # post"] by blast
  then show "same_position (extract_frame (Some (join_nl (hdr # pre @ l # post))))
               (frame_of_line l)"
    using scan_last_frame [of pre l post] h by simp
next
  fix hdr pre g post
  assume h: "(\<forall>x\<in>set (hdr # pre @ g # post). one_line x)
        \<and> (\<forall>x\<in>set pre. \<not> meaningful (frame_of_line x))
        \<and> meaningful (frame_of_line g)"
  then have a: "extract_frame (Some (join_nl (hdr # pre @ g # post)))
               = match_line g (scan_frames pre no_frame)"
    using extract_frame_lines [of hdr "pre @ g # post"] scan_first_meaningful [of pre g post]
    by simp
  show "same_position (extract_frame (Some (join_nl (hdr # pre @ g # post))))
          (frame_of_line g)"
    using a match_line_position [of g "scan_frames pre no_frame"] meaningful_is_frame h by simp
  show "extract_frame (Some (join_nl (hdr # pre @ g # post))) = frame_of_line g"
    if "functionName (frame_of_line g) \<noteq> None"
    using a that by (simp add: match_line_with_function)
qed (simp_all add: extract_frame_empty)

theorem stack_extraction_witness:
  "same_position (extract_frame (Some vendor_stack))
     (frame_of_line ''    at b (/app/node_modules/q/b.js:3:4)'')
   \<and> extract_frame (Some (join_nl (''Error: x'' # [''    at a (/app/node_modules/p/a.js:1:2)'']
          @ ''    at c (/app/c.js:7:8)'' # [''    at d (/app/d.js:9:9)''])))
     = \<lparr>functionName = Some ''c'', fileName = Some ''/app/c.js'',
        line = Some ''7'', col = Some ''8''\<rparr>"
proof -
  let ?hdr = "''Error: x''" and ?a = "''    at a (/app/node_modules/p/a.js:1:2)''"
  let ?b = "''    at b (/app/node_modules/q/b.js:3:4)''"
  let ?c = "''    at c (/app/c.js:7:8)''" and ?d = "''    at d (/app/d.js:9:9)''"
  have h1: "(\<forall>x\<in>set (?hdr # [?a] @ ?b # []). one_line x)
        \<and> (\<forall>x\<in>set ([?a] @ ?b # []). \<not> meaningful (frame_of_line x))
        \<and> is_frame ?b \<and> (\<forall>x\<in>set []. \<not> is_frame x)"
    by code_simp
  have h2: "(\<forall>x\<in>set (?hdr # [?a] @ ?c # [?d]). one_line x)
        \<and> (\<forall>x\<in>set [?a]. \<not> meaningful (frame_of_line x))
        \<and> meaningful (frame_of_line ?c)"
    by code_simp
  have e: "frame_of_line ?c = \<lparr>functionName = Some ''c'', fileName = Some ''/app/c.js'',
        line = Some ''7'', col = Some ''8''\<rparr>"
    by code_simp
  have v: "vendor_stack = join_nl (?hdr # [?a] @ ?b # [])"
    by (simp add: vendor_stack_def)
  show ?thesis
    using stack_extraction [THEN conjunct2, THEN conjunct1, rule_format, OF h1]
      stack_extraction [THEN conjunct2, THEN conjunct2, THEN conjunct1, rule_format, OF h2]
    unfolding v by (simp add: e del: join_nl.simps)
qed

text \<open>
  A frame line of the second shape sets file, line and column and leaves the function
  name of an earlier line in place: the result then names a function of one frame and
  the position of another.
\<close>

lemma function_name_left_over:
  "extract_frame (Some (join_nl [''Error: x'', ''    at a (/app/node_modules/p/a.js:1:2)'',
      ''    at /app/c.js:7:8'']))
     = \<lparr>functionName = Some ''a'', fileName = Some ''/app/c.js'',
        line = Some ''7'', col = Some ''8''\<rparr>"
  by code_simp

section \<open>start() and stop(): how each block acts on the monitor and the runtime\<close>

lemmas after_defs = after_uncaught_def after_console_def after_window_fetch_def

lemmas start_steps = start_uncaught_def start_rejections_def start_console_def
  start_window_error_def start_window_fetch_def start_global_fetch_def
lemmas stop_steps = stop_process_def stop_window_def stop_console_def stop_window_fetch_def
  stop_global_fetch_def

subsection \<open>The registry\<close>

lemma map_of_map_set: "map_of (map_set k v m) k' = (if k' = k then Some v else map_of m k')"
  by (induction m) auto

lemma map_get_map_set: "map_get (map_set k v m) k' = (if k' = k then v else map_get m k')"
  by (simp add: map_get_def map_of_map_set)

lemma map_get_empty: "map_get [] k = Undefined"
  by (simp add: map_get_def)

subsection \<open>The monitor through the steps\<close>

lemma start_steps_isActive:
  "isActive (fst (start_uncaught s)) = isActive (fst s)"
  "isActive (fst (start_rejections s)) = isActive (fst s)"
  "isActive (fst (start_console s)) = isActive (fst s)"
  "isActive (fst (start_window_error s)) = isActive (fst s)"
  "isActive (fst (start_window_fetch s)) = isActive (fst s)"
  "isActive (fst (start_global_fetch s)) = isActive (fst s)"
  by (cases s; simp add: start_steps register_def Let_def split: option.splits)+

lemma start_steps_options:
  "options (fst (start_uncaught s)) = options (fst s)"
  "options (fst (start_rejections s)) = options (fst s)"
  "options (fst (start_console s)) = options (fst s)"
  "options (fst (start_window_error s)) = options (fst s)"
  "options (fst (start_window_fetch s)) = options (fst s)"
  "options (fst (start_global_fetch s)) = options (fst s)"
  by (cases s; simp add: start_steps register_def Let_def split: option.splits)+

lemma start_steps_apiKey:
  "apiKey (fst (start_uncaught s)) = apiKey (fst s)"
  "apiKey (fst (start_rejections s)) = apiKey (fst s)"
  "apiKey (fst (start_console s)) = apiKey (fst s)"
  "apiKey (fst (start_window_error s)) = apiKey (fst s)"
  "apiKey (fst (start_window_fetch s)) = apiKey (fst s)"
  "apiKey (fst (start_global_fetch s)) = apiKey (fst s)"
  by (cases s; simp add: start_steps register_def Let_def split: option.splits)+

lemma stop_steps_monitor:
  "fst (stop_process s) = fst s"
  "fst (stop_window s) = fst s"
  "fst (stop_console s) = fst s"
  "fst (stop_window_fetch s) = fst s"
  "fst (stop_global_fetch s) = fst s"
  by (cases s; simp add: stop_steps Let_def split: option.splits)+

lemma clear_handlers_simps:
  "fst (clear_handlers s) = (fst s)\<lparr>originalHandlers := []\<rparr>"
  "snd (clear_handlers s) = snd s"
  by (cases s; simp add: clear_handlers_def)+

lemma start_unfold:
  "\<not> isActive m \<Longrightarrow> start (m, e) =
     start_global_fetch (start_window_fetch (start_window_error (start_console
       (start_rejections (start_uncaught (m\<lparr>isActive := True\<rparr>, e))))))"
  by (simp add: start_def)

lemma stop_unfold:
  "isActive (fst s) \<Longrightarrow> stop s =
     clear_handlers (stop_global_fetch (stop_window_fetch (stop_console
       (stop_window (stop_process ((fst s)\<lparr>isActive := False\<rparr>, snd s))))))"
  by (cases s) (simp add: stop_def)

lemma isActive_start: "isActive (fst (start s))"
  by (cases s) (simp add: start_def start_steps_isActive)

lemma isActive_stop: "\<not> isActive (fst (stop s))"
  by (cases s) (simp add: stop_def clear_handlers_simps stop_steps_monitor)

lemma options_start: "options (fst (start s)) = options (fst s)"
  by (cases s) (simp add: start_def start_steps_options)

lemma apiKey_start: "apiKey (fst (start s)) = apiKey (fst s)"
  by (cases s) (simp add: start_def start_steps_apiKey)

lemma originalHandlers_stop: "originalHandlers (fst (stop s)) = (if isActive (fst s) then [] else originalHandlers (fst s))"
  by (cases s) (simp add: stop_def clear_handlers_simps)

lemma idle_stop: "idle m \<or> isActive m \<Longrightarrow> idle (fst (stop (m, e)))"
  using isActive_stop [of "(m, e)"] by (auto simp: idle_def originalHandlers_stop)

lemma idle_new: "idle (new_ErrorMonitor key opts)"
  by (simp add: idle_def new_ErrorMonitor_def)

lemma start_idem: "start (start s) = start s"
  using isActive_start [of s] by (cases "start s") (simp add: start_def)

lemma stop_idem: "stop (stop s) = stop s"
  using isActive_stop [of s] by (cases "stop s") (simp add: stop_def)

subsection \<open>Registry lookups after each step of start\<close>

lemma lookup_start_uncaught:
  "map_get (originalHandlers (fst (start_uncaught s))) k =
     (if k = ''uncaughtException'' \<and> process_on_available (snd s)
      then Fn (UncaughtHandler (next_closure (snd s)))
      else map_get (originalHandlers (fst s)) k)"
  by (cases s) (simp add: start_uncaught_def register_def Let_def map_get_map_set)

lemma lookup_start_rejections:
  "map_get (originalHandlers (fst (start_rejections s))) k =
     (if k = ''unhandledrejection'' \<and> enabled (enablePromiseRejections (options (fst s)))
         \<and> window (snd s) \<noteq> None
      then Fn (BrowserRejectionHandler (next_closure (snd s)))
      else if k = ''unhandledRejection'' \<and> enabled (enablePromiseRejections (options (fst s)))
         \<and> window (snd s) = None \<and> process_on_available (snd s)
      then Fn (NodeRejectionHandler (next_closure (snd s)))
      else map_get (originalHandlers (fst s)) k)"
  by (cases s) (auto simp: start_rejections_def register_def Let_def map_get_map_set)

lemma lookup_start_console:
  "map_get (originalHandlers (fst (start_console s))) k =
     (if k = ''console.error'' \<and> enabled (enableConsoleErrors (options (fst s)))
         \<and> console (snd s) \<noteq> None
      then c_error (the (console (snd s)))
      else map_get (originalHandlers (fst s)) k)"
  by (cases s) (simp add: start_console_def register_def Let_def map_get_map_set split: option.splits)

lemma lookup_start_window_error:
  "map_get (originalHandlers (fst (start_window_error s))) k =
     (if k = ''error'' \<and> window (snd s) \<noteq> None
      then Fn (WindowErrorHandler (next_closure (snd s)))
      else map_get (originalHandlers (fst s)) k)"
  by (cases s) (simp add: start_window_error_def register_def Let_def map_get_map_set split: option.splits)

lemma lookup_start_window_fetch:
  "map_get (originalHandlers (fst (start_window_fetch s))) k =
     (if k = ''fetch'' \<and> window_fetch_patched s
      then w_fetch (the (window (snd s)))
      else map_get (originalHandlers (fst s)) k)"
  by (cases s) (simp add: start_window_fetch_def window_fetch_patched_def register_def Let_def
      map_get_map_set split: option.splits)

lemma lookup_start_global_fetch:
  "map_get (originalHandlers (fst (start_global_fetch s))) k =
     (if k = ''global.fetch'' \<and> global_fetch_patched s
      then global_fetch (snd s)
      else map_get (originalHandlers (fst s)) k)"
  by (cases s) (simp add: start_global_fetch_def global_fetch_patched_def register_def Let_def
      map_get_map_set)

lemmas lookup_start = lookup_start_uncaught lookup_start_rejections lookup_start_console
  lookup_start_window_error lookup_start_window_fetch lookup_start_global_fetch

subsection \<open>The console through the steps\<close>

lemma start_steps_console:
  "console (snd (start_uncaught s)) = console (snd s)"
  "console (snd (start_rejections s)) = console (snd s)"
  "console (snd (start_window_error s)) = console (snd s)"
  "console (snd (start_window_fetch s)) = console (snd s)"
  "console (snd (start_global_fetch s)) = console (snd s)"
  by (cases s; simp add: start_steps alloc_def set_global_fetch_def Let_def
      split: option.splits global_binding.splits)+

lemma start_console_console:
  "console (snd (start_console s)) =
     (if enabled (enableConsoleErrors (options (fst s)))
      then map_option (\<lambda>c. c\<lparr>c_error := Fn (ConsoleErrorPatch (next_closure (snd s)) (c_error c))\<rparr>)
             (console (snd s))
      else console (snd s))"
  by (cases s) (simp add: start_console_def alloc_def Let_def split: option.splits)

lemma stop_steps_console:
  "console (snd (stop_process s)) = console (snd s)"
  "console (snd (stop_window s)) = console (snd s)"
  "console (snd (stop_window_fetch s)) = console (snd s)"
  "console (snd (stop_global_fetch s)) = console (snd s)"
  by (cases s; simp add: stop_steps set_global_fetch_def Let_def
      split: option.splits global_binding.splits)+

lemma stop_console_console:
  "console (snd (stop_console s)) =
     (if truthy (map_get (originalHandlers (fst s)) ''console.error'')
      then map_option (\<lambda>c. c\<lparr>c_error := map_get (originalHandlers (fst s)) ''console.error''\<rparr>)
             (console (snd s))
      else console (snd s))"
  by (cases s) (simp add: stop_console_def Let_def split: option.splits)

lemma console_start:
  "\<not> isActive m \<Longrightarrow> console (snd (start (m, e))) =
     (if enabled (enableConsoleErrors (options m))
      then map_option (\<lambda>c. c\<lparr>c_error := Fn (ConsoleErrorPatch
             (next_closure (snd (start_rejections (after_uncaught m e))))
             (c_error c))\<rparr>) (console e)
      else console e)"
  by (simp add: start_unfold after_defs start_steps_console start_console_console start_steps_options)

lemma lookup_console_start:
  "idle m \<Longrightarrow> map_get (originalHandlers (fst (start (m, e)))) ''console.error'' =
     (if enabled (enableConsoleErrors (options m)) \<and> console e \<noteq> None
      then c_error (the (console e)) else Undefined)"
  by (auto simp: idle_def start_unfold after_defs lookup_start start_steps_console start_steps_options
      map_get_empty)

lemma console_stop:
  "isActive (fst s) \<Longrightarrow> console (snd (stop s)) =
     (if truthy (map_get (originalHandlers (fst s)) ''console.error'')
      then map_option (\<lambda>c. c\<lparr>c_error := map_get (originalHandlers (fst s)) ''console.error''\<rparr>)
             (console (snd s))
      else console (snd s))"
  by (simp add: stop_unfold clear_handlers_simps stop_steps_console stop_console_console
      stop_steps_monitor)

lemma console_round_trip:
  assumes "idle m" "console_error_callable e"
  shows "console (snd (stop (start (m, e)))) = console e"
proof -
  have a: "\<not> isActive m" using assms(1) by (simp add: idle_def)
  show ?thesis
  proof (cases "console e")
    case None
    then show ?thesis
      by (simp add: console_stop isActive_start console_start [OF a])
  next
    case (Some c)
    then have "truthy (c_error c)" using assms(2) by (simp add: console_error_callable_def)
    with Some show ?thesis
      by (simp add: console_stop isActive_start console_start [OF a]
          lookup_console_start [OF assms(1)])
  qed
qed


subsection \<open>The process object through the steps\<close>

lemma start_steps_process:
  "process (snd (start_console s)) = process (snd s)"
  "process (snd (start_window_error s)) = process (snd s)"
  "process (snd (start_window_fetch s)) = process (snd s)"
  "process (snd (start_global_fetch s)) = process (snd s)"
  by (cases s; simp add: start_steps alloc_def set_global_fetch_def Let_def
      split: option.splits global_binding.splits)+

lemma start_uncaught_process:
  "process (snd (start_uncaught s)) =
     (if process_on_available (snd s)
      then map_option (\<lambda>p. p\<lparr>uncaughtException :=
              uncaughtException p @ [UncaughtHandler (next_closure (snd s))]\<rparr>) (process (snd s))
      else process (snd s))"
  by (cases s) (simp add: start_uncaught_def alloc_def emitter_on_def Let_def)

lemma start_rejections_process:
  "process (snd (start_rejections s)) =
     (if enabled (enablePromiseRejections (options (fst s))) \<and> window (snd s) = None
         \<and> process_on_available (snd s)
      then map_option (\<lambda>p. p\<lparr>unhandledRejection :=
              unhandledRejection p @ [NodeRejectionHandler (next_closure (snd s))]\<rparr>) (process (snd s))
      else process (snd s))"
  by (cases s) (auto simp: start_rejections_def alloc_def emitter_on_def Let_def)

lemma process_on_available_start_uncaught:
  "process_on_available (snd (start_uncaught s)) = process_on_available (snd s)"
  by (cases "process (snd s)") (simp_all add: process_on_available_def start_uncaught_process)

lemma start_steps_window_uncaught:
  "window (snd (start_uncaught s)) = window (snd s)"
  by (cases s) (simp add: start_uncaught_def alloc_def Let_def)

lemma next_closure_start_uncaught:
  "next_closure (snd (start_uncaught s)) =
     (if process_on_available (snd s) then Suc (next_closure (snd s)) else next_closure (snd s))"
  by (cases s) (simp add: start_uncaught_def alloc_def Let_def)

lemma process_start:
  "\<not> isActive m \<Longrightarrow> process (snd (start (m, e))) =
     map_option (\<lambda>p. if has_on p then p
       \<lparr>uncaughtException := uncaughtException p @ [UncaughtHandler (next_closure e)],
        unhandledRejection :=
          (if enabled (enablePromiseRejections (options m)) \<and> window e = None
           then unhandledRejection p @ [NodeRejectionHandler (Suc (next_closure e))]
           else unhandledRejection p)\<rparr> else p) (process e)"
  by (cases "process e")
    (simp_all add: start_unfold after_defs start_steps_process start_rejections_process start_uncaught_process
      process_on_available_start_uncaught start_steps_window_uncaught start_steps_options
      next_closure_start_uncaught process_on_available_def cong: if_cong)

lemma stop_steps_process:
  "process (snd (stop_window s)) = process (snd s)"
  "process (snd (stop_console s)) = process (snd s)"
  "process (snd (stop_window_fetch s)) = process (snd s)"
  "process (snd (stop_global_fetch s)) = process (snd s)"
  by (cases s; simp add: stop_steps set_global_fetch_def Let_def
      split: option.splits global_binding.splits)+

lemma stop_process_process:
  "process (snd (stop_process s)) =
     map_option (\<lambda>p. if has_removeListener p then p
        \<lparr>uncaughtException :=
           remove_if (map_get (originalHandlers (fst s)) ''uncaughtException'')
             emitter_removeListener (uncaughtException p),
         unhandledRejection :=
           remove_if (map_get (originalHandlers (fst s)) ''unhandledRejection'')
             emitter_removeListener (unhandledRejection p)\<rparr> else p) (process (snd s))"
  by (cases s) (simp add: stop_process_def Let_def split: option.splits)

lemma process_stop:
  "isActive (fst s) \<Longrightarrow> process (snd (stop s)) =
     map_option (\<lambda>p. if has_removeListener p then p
        \<lparr>uncaughtException :=
           remove_if (map_get (originalHandlers (fst s)) ''uncaughtException'')
             emitter_removeListener (uncaughtException p),
         unhandledRejection :=
           remove_if (map_get (originalHandlers (fst s)) ''unhandledRejection'')
             emitter_removeListener (unhandledRejection p)\<rparr> else p) (process (snd s))"
  by (simp add: stop_unfold clear_handlers_simps stop_steps_process stop_process_process
      cong: if_cong)

lemma lookup_uncaught_start:
  "idle m \<Longrightarrow> map_get (originalHandlers (fst (start (m, e)))) ''uncaughtException'' =
     (if process_on_available e then Fn (UncaughtHandler (next_closure e)) else Undefined)"
  by (simp add: idle_def start_unfold after_defs lookup_start map_get_empty)

lemma lookup_node_rejection_start:
  "idle m \<Longrightarrow> map_get (originalHandlers (fst (start (m, e)))) ''unhandledRejection'' =
     (if enabled (enablePromiseRejections (options m)) \<and> window e = None \<and> process_on_available e
      then Fn (NodeRejectionHandler (Suc (next_closure e))) else Undefined)"
  by (simp add: idle_def start_unfold after_defs lookup_start map_get_empty start_steps_options
      start_steps_window_uncaught process_on_available_start_uncaught
      next_closure_start_uncaught)

lemma emitter_round_trip: "emitter_removeListener h (ls @ [h]) = ls"
  by (simp add: emitter_removeListener_def)

lemma process_round_trip:
  assumes "idle m" "listeners_removable e"
  shows "process (snd (stop (start (m, e)))) = process e"
proof -
  have a: "\<not> isActive m" using assms(1) by (simp add: idle_def)
  show ?thesis
  proof (cases "process e")
    case None
    then show ?thesis by (simp add: process_stop isActive_start process_start [OF a])
  next
    case (Some p)
    with assms(2) show ?thesis
      by (simp add: process_stop isActive_start process_start [OF a]
          lookup_uncaught_start [OF assms(1)] lookup_node_rejection_start [OF assms(1)]
          listeners_removable_def process_on_available_def remove_if_def emitter_round_trip)
  qed
qed


subsection \<open>The global object through the steps\<close>

lemma start_steps_global:
  "global (snd (start_uncaught s)) = global (snd s)"
  "global (snd (start_rejections s)) = global (snd s)"
  "global (snd (start_console s)) = global (snd s)"
  "global (snd (start_window_error s)) = global (snd s)"
  "global (snd (start_window_fetch s)) = global (snd s)"
  by (cases s; simp add: start_steps alloc_def Let_def split: option.splits)+

lemma start_global_fetch_global:
  "global (snd (start_global_fetch s)) =
     (case global (snd s) of
        GlobalObject v \<Rightarrow>
          if enabled (enableFetchMonitoring (options (fst s))) \<and> truthy v
          then GlobalObject (Fn (GlobalFetchPatch (next_closure (snd s)) v))
          else GlobalObject v
      | g \<Rightarrow> g)"
  by (cases s) (simp add: start_global_fetch_def alloc_def set_global_fetch_def global_defined_def
      global_fetch_def Let_def split: global_binding.splits)

lemma stop_steps_global:
  "global (snd (stop_process s)) = global (snd s)"
  "global (snd (stop_window s)) = global (snd s)"
  "global (snd (stop_console s)) = global (snd s)"
  "global (snd (stop_window_fetch s)) = global (snd s)"
  by (cases s; simp add: stop_steps Let_def split: option.splits)+

lemma stop_global_fetch_global:
  "global (snd (stop_global_fetch s)) =
     (case global (snd s) of
        GlobalObject v \<Rightarrow>
          if truthy (map_get (originalHandlers (fst s)) ''global.fetch'')
          then GlobalObject (map_get (originalHandlers (fst s)) ''global.fetch'')
          else GlobalObject v
      | g \<Rightarrow> g)"
  by (cases s) (simp add: stop_global_fetch_def set_global_fetch_def global_defined_def
      Let_def split: global_binding.splits)

lemma global_start:
  "\<not> isActive m \<Longrightarrow> global (snd (start (m, e))) =
     (case global e of
        GlobalObject v \<Rightarrow>
          if enabled (enableFetchMonitoring (options m)) \<and> truthy v
          then GlobalObject (Fn (GlobalFetchPatch
                 (next_closure (snd (after_window_fetch m e))) v))
          else GlobalObject v
      | g \<Rightarrow> g)"
  by (simp add: start_unfold after_defs start_global_fetch_global start_steps_global start_steps_options
      split: global_binding.splits)

lemma global_stop:
  "isActive (fst s) \<Longrightarrow> global (snd (stop s)) =
     (case global (snd s) of
        GlobalObject v \<Rightarrow>
          if truthy (map_get (originalHandlers (fst s)) ''global.fetch'')
          then GlobalObject (map_get (originalHandlers (fst s)) ''global.fetch'')
          else GlobalObject v
      | g \<Rightarrow> g)"
  by (simp add: stop_unfold clear_handlers_simps stop_global_fetch_global stop_steps_global
      stop_steps_monitor split: global_binding.splits)

lemma lookup_global_fetch_start:
  "idle m \<Longrightarrow> map_get (originalHandlers (fst (start (m, e)))) ''global.fetch'' =
     (let s = after_window_fetch m e
      in if global_fetch_patched s then global_fetch (snd s) else Undefined)"
  by (simp add: idle_def start_unfold after_defs lookup_start map_get_empty Let_def)

lemma global_fetch_separate:
  "global e = GlobalObject v \<Longrightarrow> global_fetch e = v \<and> global_defined e"
  "global e = NoGlobal \<Longrightarrow> \<not> global_defined e"
  by (simp_all add: global_fetch_def global_defined_def)

lemma global_round_trip:
  assumes "idle m"
  shows "global (snd (stop (start (m, e)))) = global e"
proof -
  have a: "\<not> isActive m" using assms(1) by (simp add: idle_def)
  let ?s = "after_window_fetch m e"
  have g: "global (snd ?s) = global e" by (simp add: after_defs start_steps_global)
  have o: "options (fst ?s) = options m" by (simp add: after_defs start_steps_options)
  show ?thesis
  proof (cases "global e")
    case NoGlobal
    then show ?thesis by (simp add: global_stop isActive_start global_start [OF a])
  next
    case GlobalIsWindow
    then show ?thesis by (simp add: global_stop isActive_start global_start [OF a])
  next
    case (GlobalObject v)
    have "global_fetch (snd ?s) = v" "global_defined (snd ?s)"
      using global_fetch_separate(1) [of "snd ?s" v] g GlobalObject by simp_all
    then have "map_get (originalHandlers (fst (start (m, e)))) ''global.fetch'' =
        (if enabled (enableFetchMonitoring (options m)) \<and> truthy v then v else Undefined)"
      by (simp add: lookup_global_fetch_start [OF assms] global_fetch_patched_def o Let_def)
    with GlobalObject show ?thesis
      by (simp add: global_stop isActive_start global_start [OF a])
  qed
qed

subsection \<open>The window object through the steps\<close>

lemma start_steps_window:
  "window (snd (start_uncaught s)) = window (snd s)"
  "window (snd (start_console s)) = window (snd s)"
  by (cases s; simp add: start_steps alloc_def Let_def split: option.splits)+

lemma start_rejections_window:
  "window (snd (start_rejections s)) =
     (if enabled (enablePromiseRejections (options (fst s)))
      then map_option (\<lambda>w. w\<lparr>unhandledrejection :=
              addEventListener (BrowserRejectionHandler (next_closure (snd s)))
                (unhandledrejection w)\<rparr>) (window (snd s))
      else window (snd s))"
  by (cases s) (auto simp: start_rejections_def alloc_def Let_def)

lemma start_window_error_window:
  "window (snd (start_window_error s)) =
     map_option (\<lambda>w. w\<lparr>error_listeners :=
        addEventListener (WindowErrorHandler (next_closure (snd s))) (error_listeners w)\<rparr>)
       (window (snd s))"
  by (cases s) (simp add: start_window_error_def alloc_def Let_def split: option.splits)

lemma start_window_fetch_window:
  "window (snd (start_window_fetch s)) =
     (if enabled (enableFetchMonitoring (options (fst s)))
      then map_option (\<lambda>w. if truthy (w_fetch w)
             then w\<lparr>w_fetch := Fn (WindowFetchPatch (next_closure (snd s)) (w_fetch w))\<rparr> else w)
             (window (snd s))
      else window (snd s))"
  by (cases s) (simp add: start_window_fetch_def alloc_def Let_def split: option.splits)

lemma start_global_fetch_window:
  "separate_globals (snd s) \<Longrightarrow> window (snd (start_global_fetch s)) = window (snd s)"
  by (cases s) (simp add: start_global_fetch_def alloc_def set_global_fetch_def separate_globals_def
      Let_def split: global_binding.splits)

lemma stop_steps_window:
  "window (snd (stop_process s)) = window (snd s)"
  "window (snd (stop_console s)) = window (snd s)"
  by (cases s; simp add: stop_steps Let_def split: option.splits)+

lemma stop_window_window:
  "window (snd (stop_window s)) =
     map_option (\<lambda>w. w
        \<lparr>unhandledrejection :=
           remove_if (map_get (originalHandlers (fst s)) ''unhandledrejection'')
             removeEventListener (unhandledrejection w),
         error_listeners :=
           remove_if (map_get (originalHandlers (fst s)) ''error'')
             removeEventListener (error_listeners w)\<rparr>) (window (snd s))"
  by (cases s) (simp add: stop_window_def Let_def split: option.splits)

lemma stop_window_fetch_window:
  "window (snd (stop_window_fetch s)) =
     (if truthy (map_get (originalHandlers (fst s)) ''fetch'')
      then map_option (\<lambda>w. w\<lparr>w_fetch := map_get (originalHandlers (fst s)) ''fetch''\<rparr>)
             (window (snd s))
      else window (snd s))"
  by (cases s) (simp add: stop_window_fetch_def Let_def split: option.splits)

lemma stop_global_fetch_window:
  "separate_globals (snd s) \<Longrightarrow> window (snd (stop_global_fetch s)) = window (snd s)"
  by (cases s) (simp add: stop_global_fetch_def set_global_fetch_def separate_globals_def
      Let_def split: global_binding.splits)


lemma next_closure_start_steps:
  "next_closure (snd s) \<le> next_closure (snd (start_uncaught s))"
  "next_closure (snd s) \<le> next_closure (snd (start_rejections s))"
  "next_closure (snd s) \<le> next_closure (snd (start_console s))"
  "next_closure (snd s) \<le> next_closure (snd (start_window_error s))"
  "next_closure (snd s) \<le> next_closure (snd (start_window_fetch s))"
  by (cases s; simp add: start_steps alloc_def Let_def split: option.splits)+

lemma not_older: "older_than n ls \<Longrightarrow> closure_id h = Some k \<Longrightarrow> n \<le> k \<Longrightarrow> h \<notin> set ls"
  by (auto simp: older_than_def list_all_iff split: option.splits)

lemma listener_round_trip:
  "h \<notin> set ls \<Longrightarrow> removeEventListener h (addEventListener h ls) = ls"
  by (simp add: removeEventListener_def addEventListener_def remove1_append)

lemma window_start:
  assumes "\<not> isActive m" "separate_globals e"
  shows "window (snd (start (m, e))) =
     map_option (\<lambda>w. w
       \<lparr>unhandledrejection :=
          (if enabled (enablePromiseRejections (options m))
           then addEventListener (BrowserRejectionHandler
                  (next_closure (snd (after_uncaught m e))))
                  (unhandledrejection w)
           else unhandledrejection w),
        error_listeners :=
          addEventListener (WindowErrorHandler
            (next_closure (snd (after_console m e))))
            (error_listeners w),
        w_fetch :=
          (if enabled (enableFetchMonitoring (options m)) \<and> truthy (w_fetch w)
           then Fn (WindowFetchPatch
                  (next_closure (snd (start_window_error (after_console m e))))
                  (w_fetch w))
           else w_fetch w)\<rparr>) (window e)"
proof -
  have "separate_globals (snd (after_window_fetch m e))"
    using assms(2) by (simp add: after_defs separate_globals_def start_steps_global)
  then show ?thesis
    by (cases "window e")
      (simp_all add: start_unfold after_defs assms(1) start_global_fetch_window start_window_fetch_window
        start_window_error_window start_steps_window start_rejections_window start_steps_options)
qed

lemma window_stop:
  assumes "isActive (fst s)" "separate_globals (snd s)"
  shows "window (snd (stop s)) =
     map_option (\<lambda>w. w
        \<lparr>unhandledrejection :=
           remove_if (map_get (originalHandlers (fst s)) ''unhandledrejection'')
             removeEventListener (unhandledrejection w),
         error_listeners :=
           remove_if (map_get (originalHandlers (fst s)) ''error'')
             removeEventListener (error_listeners w),
         w_fetch :=
           (if truthy (map_get (originalHandlers (fst s)) ''fetch'')
            then map_get (originalHandlers (fst s)) ''fetch'' else w_fetch w)\<rparr>) (window (snd s))"
proof -
  have "separate_globals (snd (stop_window_fetch (stop_console (stop_window (stop_process
          ((fst s)\<lparr>isActive := False\<rparr>, snd s))))))"
    using assms(2) by (simp add: separate_globals_def stop_steps_global)
  then show ?thesis
    by (cases "window (snd s)")
      (simp_all add: stop_unfold assms(1) clear_handlers_simps stop_global_fetch_window
        stop_window_fetch_window stop_steps_window stop_window_window stop_steps_monitor)
qed

lemma lookup_browser_rejection_start:
  "idle m \<Longrightarrow> map_get (originalHandlers (fst (start (m, e)))) ''unhandledrejection'' =
     (if enabled (enablePromiseRejections (options m)) \<and> window e \<noteq> None
      then Fn (BrowserRejectionHandler
             (next_closure (snd (after_uncaught m e))))
      else Undefined)"
  by (simp add: idle_def start_unfold after_defs lookup_start map_get_empty start_steps_options
      start_steps_window)

lemma lookup_error_start:
  "idle m \<Longrightarrow> map_get (originalHandlers (fst (start (m, e)))) ''error'' =
     (if window e \<noteq> None
      then Fn (WindowErrorHandler
             (next_closure (snd (after_console m e))))
      else Undefined)"
  by (simp add: idle_def start_unfold after_defs lookup_start map_get_empty start_steps_options
      start_steps_window start_rejections_window)

lemma lookup_fetch_start:
  "idle m \<Longrightarrow> map_get (originalHandlers (fst (start (m, e)))) ''fetch'' =
     (case window e of
        Some w \<Rightarrow> if enabled (enableFetchMonitoring (options m)) \<and> truthy (w_fetch w)
                  then w_fetch w else Undefined
      | None \<Rightarrow> Undefined)"
  by (cases "window e")
    (auto simp: idle_def start_unfold after_defs lookup_start map_get_empty start_steps_options
      start_steps_window start_rejections_window start_window_error_window
      window_fetch_patched_def)

lemma separate_globals_start:
  "separate_globals (snd (start s)) = separate_globals (snd s)"
  by (cases s)
    (simp add: start_def separate_globals_def start_steps_global start_global_fetch_global
      split: global_binding.splits)

lemma window_round_trip:
  assumes "idle m" "separate_globals e" "listeners_older e"
  shows "window (snd (stop (start (m, e)))) = window e"
proof (cases "window e")
  case None
  then show ?thesis
    using assms by (simp add: window_stop window_start isActive_start separate_globals_start idle_def)
next
  case (Some w)
  let ?s0 = "(m\<lparr>isActive := True\<rparr>, e)"
  let ?n1 = "next_closure (snd (after_uncaught m e))"
  let ?n3 = "next_closure (snd (after_console m e))"
  have a: "\<not> isActive m" using assms(1) by (simp add: idle_def)
  have old: "older_than (next_closure e) (unhandledrejection w)"
    "older_than (next_closure e) (error_listeners w)"
    using assms(3) Some by (simp_all add: listeners_older_def)
  have n1: "next_closure e \<le> ?n1"
    using next_closure_start_steps(1) [of ?s0] by (simp add: after_defs)
  have "?n1 \<le> ?n3"
    using next_closure_start_steps(2) [of "start_uncaught ?s0"]
      next_closure_start_steps(3) [of "start_rejections (start_uncaught ?s0)"]
    by (simp add: after_defs)
  with n1 have n3: "next_closure e \<le> ?n3" by simp
  have f1: "BrowserRejectionHandler ?n1 \<notin> set (unhandledrejection w)"
    using not_older [OF old(1) _ n1] by simp
  have f3: "WindowErrorHandler ?n3 \<notin> set (error_listeners w)"
    using not_older [OF old(2) _ n3] by simp
  show ?thesis
    using Some assms(2)
    by (simp add: window_stop window_start [OF a] isActive_start separate_globals_start
        lookup_browser_rejection_start [OF assms(1)] lookup_error_start [OF assms(1)]
        lookup_fetch_start [OF assms(1)] remove_if_def listener_round_trip f1 f3)
qed

subsection \<open>Listener fields of the window\<close>

lemma start_fetch_listeners:
  "map_option unhandledrejection (window (snd (start_window_fetch s)))
     = map_option unhandledrejection (window (snd s))"
  "map_option error_listeners (window (snd (start_window_fetch s)))
     = map_option error_listeners (window (snd s))"
  "map_option unhandledrejection (window (snd (start_global_fetch s)))
     = map_option unhandledrejection (window (snd s))"
  "map_option error_listeners (window (snd (start_global_fetch s)))
     = map_option error_listeners (window (snd s))"
  by (cases s; cases "window (snd s)";
      simp add: start_window_fetch_def start_global_fetch_def alloc_def set_global_fetch_def Let_def
        split: global_binding.splits)+

lemma unhandledrejection_start:
  "\<not> isActive m \<Longrightarrow> map_option unhandledrejection (window (snd (start (m, e)))) =
     map_option (\<lambda>w. if enabled (enablePromiseRejections (options m))
        then addEventListener (BrowserRejectionHandler (next_closure (snd (after_uncaught m e))))
               (unhandledrejection w)
        else unhandledrejection w) (window e)"
  by (cases "window e")
    (simp_all add: start_unfold after_defs start_fetch_listeners start_window_error_window
      start_steps_window start_rejections_window start_steps_options)

lemma error_listeners_start:
  "\<not> isActive m \<Longrightarrow> map_option error_listeners (window (snd (start (m, e)))) =
     map_option (\<lambda>w. addEventListener (WindowErrorHandler (next_closure (snd (after_console m e))))
        (error_listeners w)) (window e)"
  by (cases "window e")
    (simp_all add: start_unfold after_defs start_fetch_listeners start_window_error_window
      start_steps_window start_rejections_window start_steps_options)

lemma start_fetch_disabled:
  "\<not> enabled (enableFetchMonitoring (options (fst s))) \<Longrightarrow> start_window_fetch s = s"
  "\<not> enabled (enableFetchMonitoring (options (fst s))) \<Longrightarrow> start_global_fetch s = s"
  by (cases s; simp add: start_window_fetch_def start_global_fetch_def split: option.splits)+

lemma fetch_start_disabled:
  assumes "\<not> isActive m" "\<not> enabled (enableFetchMonitoring (options m))"
  shows "map_option w_fetch (window (snd (start (m, e)))) = map_option w_fetch (window e)"
    and "global (snd (start (m, e))) = global e"
proof -
  let ?s = "start_window_error (after_console m e)"
  have o: "\<not> enabled (enableFetchMonitoring (options (fst ?s)))"
    using assms(2) by (simp add: after_defs start_steps_options)
  have s: "start (m, e) = ?s"
    using assms(1) o by (simp add: start_unfold after_defs start_fetch_disabled)
  show "map_option w_fetch (window (snd (start (m, e)))) = map_option w_fetch (window e)"
    unfolding s
    by (cases "window e")
      (simp_all add: after_defs start_window_error_window start_steps_window
        start_rejections_window)
  show "global (snd (start (m, e))) = global e"
    unfolding s by (simp add: after_defs start_steps_global)
qed

lemma uncaught_start:
  "\<not> isActive m \<Longrightarrow> process_on_available e \<Longrightarrow>
   map_option uncaughtException (process (snd (start (m, e)))) =
     map_option (\<lambda>p. uncaughtException p @ [UncaughtHandler (next_closure e)]) (process e)"
  by (cases "process e") (simp_all add: process_start process_on_available_def)

lemma node_rejections_start_disabled:
  "\<not> isActive m \<Longrightarrow> \<not> enabled (enablePromiseRejections (options m)) \<Longrightarrow>
   map_option unhandledRejection (process (snd (start (m, e))))
     = map_option unhandledRejection (process e)"
  by (cases "process e") (simp_all add: process_start)

section \<open>start() and stop(): the claims\<close>

lemma keys_map_set: "fst ` set (map_set k v m) = insert k (fst ` set m)"
proof -
  have "map_of (map_set k v m) = (map_of m)(k \<mapsto> v)"
    by (rule ext) (simp add: map_of_map_set)
  then have "dom (map_of (map_set k v m)) = insert k (dom (map_of m))" by simp
  then show ?thesis by (simp add: dom_map_of_conv_image_fst)
qed

lemma keys_start_steps:
  "fst ` set (originalHandlers (fst s)) \<subseteq> hook_names \<Longrightarrow>
   fst ` set (originalHandlers (fst (start_uncaught s))) \<subseteq> hook_names"
  "fst ` set (originalHandlers (fst s)) \<subseteq> hook_names \<Longrightarrow>
   fst ` set (originalHandlers (fst (start_rejections s))) \<subseteq> hook_names"
  "fst ` set (originalHandlers (fst s)) \<subseteq> hook_names \<Longrightarrow>
   fst ` set (originalHandlers (fst (start_console s))) \<subseteq> hook_names"
  "fst ` set (originalHandlers (fst s)) \<subseteq> hook_names \<Longrightarrow>
   fst ` set (originalHandlers (fst (start_window_error s))) \<subseteq> hook_names"
  "fst ` set (originalHandlers (fst s)) \<subseteq> hook_names \<Longrightarrow>
   fst ` set (originalHandlers (fst (start_window_fetch s))) \<subseteq> hook_names"
  "fst ` set (originalHandlers (fst s)) \<subseteq> hook_names \<Longrightarrow>
   fst ` set (originalHandlers (fst (start_global_fetch s))) \<subseteq> hook_names"
  by (cases s; simp add: start_steps register_def keys_map_set Let_def hook_names_def
      split: option.splits)+

lemma keys_start:
  "idle m \<Longrightarrow> fst ` set (originalHandlers (fst (start (m, e)))) \<subseteq> hook_names"
  by (simp add: idle_def start_unfold keys_start_steps)

lemma lookup_global_fetch_separate:
  assumes "idle m" "separate_globals e"
  shows "map_get (originalHandlers (fst (start (m, e)))) ''global.fetch'' =
     (case global e of
        GlobalObject v \<Rightarrow>
          if enabled (enableFetchMonitoring (options m)) \<and> truthy v then v else Undefined
      | _ \<Rightarrow> Undefined)"
proof -
  let ?s = "after_window_fetch m e"
  have g: "global (snd ?s) = global e" by (simp add: after_defs start_steps_global)
  have o: "options (fst ?s) = options m" by (simp add: after_defs start_steps_options)
  show ?thesis
  proof (cases "global e")
    case NoGlobal
    then have "\<not> global_defined (snd ?s)" using g by (simp add: global_defined_def)
    then show ?thesis
      using NoGlobal by (simp add: lookup_global_fetch_start [OF assms(1)] global_fetch_patched_def)
  next
    case GlobalIsWindow
    then show ?thesis using assms(2) by (simp add: separate_globals_def)
  next
    case (GlobalObject v)
    have "global_fetch (snd ?s) = v" "global_defined (snd ?s)"
      using global_fetch_separate(1) [of "snd ?s" v] g GlobalObject by simp_all
    then show ?thesis
      using GlobalObject
      by (simp add: lookup_global_fetch_start [OF assms(1)] global_fetch_patched_def o)
  qed
qed

text \<open>
  Claim C5. A second \<^verbatim>\<open>start()\<close> changes nothing, and neither does a second \<^verbatim>\<open>stop()\<close>:
  monitor, registry and runtime are the same after two calls as after one. After two
  calls of \<^verbatim>\<open>start()\<close> on a monitor that was not active, the uncaught-exception listeners
  have grown by exactly one handler and \<^verbatim>\<open>console.error\<close> is one wrapper around the
  original, not a wrapper around a wrapper.
\<close>

theorem start_stop_idempotent:
  "start (start s) = start s \<and> stop (stop s) = stop s
   \<and> (\<forall>m e. \<not> isActive m \<and> process_on_available e \<longrightarrow>
         map_option uncaughtException (process (snd (start (start (m, e))))) =
           map_option (\<lambda>p. uncaughtException p @ [UncaughtHandler (next_closure e)]) (process e))
   \<and> (\<forall>m e. \<not> isActive m \<and> enabled (enableConsoleErrors (options m)) \<longrightarrow>
         console (snd (start (start (m, e)))) =
           map_option (\<lambda>c. c\<lparr>c_error := Fn (ConsoleErrorPatch
              (next_closure (snd (start_rejections (after_uncaught m e)))) (c_error c))\<rparr>)
             (console e))"
  by (simp add: start_idem stop_idem uncaught_start console_start)

theorem start_stop_idempotent_witness:
  "\<not> isActive example_monitor \<and> process_on_available node_env
   \<and> enabled (enableConsoleErrors (options example_monitor))
   \<and> map_option uncaughtException (process (snd (start (start (example_monitor, node_env)))))
       = Some [Host 7, UncaughtHandler 0]
   \<and> console (snd (start (start (example_monitor, node_env))))
       = Some \<lparr>c_log = Fn (Host 1), c_error = Fn (ConsoleErrorPatch 2 (Fn (Host 2)))\<rparr>"
proof -
  have h: "\<not> isActive example_monitor \<and> process_on_available node_env"
    "\<not> isActive example_monitor \<and> enabled (enableConsoleErrors (options example_monitor))"
    by code_simp+
  have n: "next_closure (snd (start_rejections (after_uncaught example_monitor node_env))) = 2"
    "next_closure node_env = 0"
    "process node_env = Some \<lparr>has_on = True, has_removeListener = True,
                       uncaughtException = [Host 7], unhandledRejection = []\<rparr>"
    "console node_env = Some \<lparr>c_log = Fn (Host 1), c_error = Fn (Host 2)\<rparr>"
    by code_simp+
  show ?thesis
    using h start_stop_idempotent [of "(example_monitor, node_env)", THEN conjunct2, THEN conjunct2,
        THEN conjunct1, rule_format, OF h(1)]
      start_stop_idempotent [of "(example_monitor, node_env)", THEN conjunct2, THEN conjunct2,
        THEN conjunct2, rule_format, OF h(2)]
    by (simp add: n)
qed

text \<open>
  Where \<^verbatim>\<open>global\<close> is absent or an object of its own, the round trip holds. For a monitor
  that is idle (never started, or stopped) and such a runtime, in which \<^verbatim>\<open>console.error\<close>
  is a function, a \<^verbatim>\<open>process\<close> with \<^verbatim>\<open>on\<close> has \<^verbatim>\<open>removeListener\<close>, and the registered
  window listeners were created earlier: \<^verbatim>\<open>start()\<close> followed by \<^verbatim>\<open>stop()\<close> leaves
  \<^verbatim>\<open>process\<close>, \<^verbatim>\<open>window\<close>, \<^verbatim>\<open>console\<close> and \<^verbatim>\<open>global\<close> as they were, the registry empty and
  the monitor inactive.
\<close>

lemma round_trip_separate_globals:
  assumes "idle m" "separate_globals e" "console_error_callable e" "listeners_removable e"
    "listeners_older e"
  shows "same_slots e (snd (stop (start (m, e)))) \<and> idle (fst (stop (start (m, e))))"
proof -
  have "idle (fst (stop (start (m, e))))"
    using isActive_start [of "(m, e)"] isActive_stop [of "start (m, e)"]
    by (simp add: idle_def originalHandlers_stop)
  then show ?thesis
    using assms
    by (simp add: same_slots_def process_round_trip console_round_trip window_round_trip
        global_round_trip)
qed

lemma round_trip_browser:
  "idle example_monitor \<and> separate_globals browser_env \<and> console_error_callable browser_env
   \<and> listeners_removable browser_env \<and> listeners_older browser_env
   \<and> same_slots browser_env (snd (stop (start (example_monitor, browser_env))))
   \<and> idle (fst (stop (start (example_monitor, browser_env))))
   \<and> \<not> same_slots browser_env (snd (start (example_monitor, browser_env)))"
proof -
  have h: "idle example_monitor" "separate_globals browser_env"
    "console_error_callable browser_env" "listeners_removable browser_env"
    "listeners_older browser_env"
    by code_simp+
  have d: "\<not> same_slots browser_env (snd (start (example_monitor, browser_env)))"
    by code_simp
  show ?thesis
    using h d round_trip_separate_globals [OF h] by simp
qed

text \<open>
  Claim C3 on a page where \<^verbatim>\<open>global\<close> is the window object, with a monitor that was never
  started. Before \<^verbatim>\<open>start()\<close> the slot \<^verbatim>\<open>window.fetch\<close> holds the function of the host. The
  first fetch block of \<^verbatim>\<open>start()\<close> stores it under \<^verbatim>\<open>fetch\<close> and installs a wrapper; the
  second block reads the same slot through \<^verbatim>\<open>global\<close>, stores that wrapper under
  \<^verbatim>\<open>global.fetch\<close> and wraps it again. \<^verbatim>\<open>stop()\<close> writes the host function back and then
  the first wrapper over it: the claim has the slot reference-equal to its value before
  \<^verbatim>\<open>start()\<close>, and it holds the monitor's wrapper, with the registry empty and the monitor
  inactive, so that no later \<^verbatim>\<open>stop()\<close> takes it out.
\<close>

theorem shim_patch_left_behind:
  "idle example_monitor
   \<and> global shim_env = GlobalIsWindow \<and> process shim_env = None
   \<and> console_error_callable shim_env \<and> listeners_older shim_env
   \<and> map_option w_fetch (window shim_env) = Some (Fn (Host 3))
   \<and> map_get (originalHandlers (fst (start (example_monitor, shim_env)))) ''fetch''
       = Fn (Host 3)
   \<and> map_get (originalHandlers (fst (start (example_monitor, shim_env)))) ''global.fetch''
       = Fn (WindowFetchPatch 3 (Fn (Host 3)))
   \<and> map_option w_fetch (window (snd (start (example_monitor, shim_env))))
       = Some (Fn (GlobalFetchPatch 4 (Fn (WindowFetchPatch 3 (Fn (Host 3))))))
   \<and> map_option w_fetch (window (snd (stop (start (example_monitor, shim_env)))))
       = Some (Fn (WindowFetchPatch 3 (Fn (Host 3))))
   \<and> idle (fst (stop (start (example_monitor, shim_env))))
   \<and> stop (stop (start (example_monitor, shim_env))) = stop (start (example_monitor, shim_env))"
  by code_simp

text \<open>
  Claim C6, as the spec states it, with every toggle switched off: \<^verbatim>\<open>start()\<close> still
  installs the uncaught-exception handler on \<^verbatim>\<open>process\<close>, and the error-event handler on
  \<^verbatim>\<open>window\<close>. Neither block of \<^verbatim>\<open>start()\<close> reads an option.
\<close>

theorem uncaught_hook_not_gated:
  "\<not> enabled (enableConsoleErrors (options (new_ErrorMonitor ''key'' all_disabled)))
   \<and> \<not> enabled (enablePromiseRejections (options (new_ErrorMonitor ''key'' all_disabled)))
   \<and> \<not> enabled (enableFunctionWrapping (options (new_ErrorMonitor ''key'' all_disabled)))
   \<and> \<not> enabled (enableFetchMonitoring (options (new_ErrorMonitor ''key'' all_disabled)))
   \<and> \<not> enabled (monitorHttpErrors (options (new_ErrorMonitor ''key'' all_disabled)))
   \<and> map_option uncaughtException (process node_env) = Some [Host 7]
   \<and> map_option uncaughtException
         (process (snd (start (new_ErrorMonitor ''key'' all_disabled, node_env))))
       = Some [Host 7, UncaughtHandler 0]
   \<and> map_option error_listeners (window browser_env) = Some [Host 8]
   \<and> map_option error_listeners
         (window (snd (start (new_ErrorMonitor ''key'' all_disabled, browser_env))))
       = Some [Host 8, WindowErrorHandler 0]"
  by code_simp

text \<open>
  Claim C6, amended. On a monitor that is not active, \<^verbatim>\<open>start()\<close> with
  \<^verbatim>\<open>enablePromiseRejections\<close> off adds no rejection listener, neither on \<^verbatim>\<open>window\<close> nor on
  \<^verbatim>\<open>process\<close>; with \<^verbatim>\<open>enableConsoleErrors\<close> off it leaves \<^verbatim>\<open>console\<close> alone; with
  \<^verbatim>\<open>enableFetchMonitoring\<close> off it leaves \<^verbatim>\<open>window.fetch\<close> and \<^verbatim>\<open>global\<close> alone. The
  uncaught-exception handler and the window error-event handler have no toggle: the first
  is added whenever \<^verbatim>\<open>process.on\<close> exists and the second whenever \<^verbatim>\<open>window\<close> does, for
  every configuration.
\<close>

theorem toggles_gate_hooks:
  assumes "\<not> isActive m"
  shows
   "(\<not> enabled (enablePromiseRejections (options m)) \<longrightarrow>
       map_option unhandledrejection (window (snd (start (m, e))))
         = map_option unhandledrejection (window e)
       \<and> map_option unhandledRejection (process (snd (start (m, e))))
         = map_option unhandledRejection (process e))
    \<and> (\<not> enabled (enableConsoleErrors (options m)) \<longrightarrow>
       console (snd (start (m, e))) = console e)
    \<and> (\<not> enabled (enableFetchMonitoring (options m)) \<longrightarrow>
       map_option w_fetch (window (snd (start (m, e)))) = map_option w_fetch (window e)
       \<and> global (snd (start (m, e))) = global e)
    \<and> (process_on_available e \<longrightarrow>
       map_option uncaughtException (process (snd (start (m, e)))) =
         map_option (\<lambda>p. uncaughtException p @ [UncaughtHandler (next_closure e)]) (process e))
    \<and> map_option error_listeners (window (snd (start (m, e)))) =
         map_option (\<lambda>w. addEventListener
            (WindowErrorHandler (next_closure (snd (after_console m e)))) (error_listeners w))
           (window e)"
  using assms
  by (simp add: unhandledrejection_start node_rejections_start_disabled console_start
      fetch_start_disabled uncaught_start error_listeners_start option.map_ident)

theorem toggles_gate_hooks_witness:
  "\<not> isActive (new_ErrorMonitor ''key'' all_disabled)
   \<and> \<not> enabled (enablePromiseRejections (options (new_ErrorMonitor ''key'' all_disabled)))
   \<and> \<not> enabled (enableConsoleErrors (options (new_ErrorMonitor ''key'' all_disabled)))
   \<and> \<not> enabled (enableFetchMonitoring (options (new_ErrorMonitor ''key'' all_disabled)))
   \<and> process_on_available node_env
   \<and> map_option unhandledRejection
         (process (snd (start (new_ErrorMonitor ''key'' all_disabled, node_env)))) = Some []
   \<and> console (snd (start (new_ErrorMonitor ''key'' all_disabled, node_env))) = console node_env
   \<and> global (snd (start (new_ErrorMonitor ''key'' all_disabled, node_env))) = global node_env
   \<and> map_option uncaughtException
         (process (snd (start (new_ErrorMonitor ''key'' all_disabled, node_env))))
       = Some [Host 7, UncaughtHandler 0]"
proof -
  let ?m = "new_ErrorMonitor ''key'' all_disabled"
  have h: "\<not> isActive ?m"
    "\<not> enabled (enablePromiseRejections (options ?m))"
    "\<not> enabled (enableConsoleErrors (options ?m))"
    "\<not> enabled (enableFetchMonitoring (options ?m))"
    "process_on_available node_env"
    by code_simp+
  have n: "map_option unhandledRejection (process node_env) = Some []"
    "map_option (\<lambda>p. uncaughtException p @ [UncaughtHandler (next_closure node_env)])
       (process node_env) = Some [Host 7, UncaughtHandler 0]"
    by code_simp+
  show ?thesis
    using h toggles_gate_hooks [OF h(1), of node_env] by (simp add: n)
qed

text \<open>
  Claim C7, as the spec states it, on a server runtime: under the keys
  \<^verbatim>\<open>uncaughtException\<close> and \<^verbatim>\<open>unhandledRejection\<close> the registry holds the handlers
  \<^verbatim>\<open>start()\<close> has just created and added, which were not registered before; nothing
  that occupied a slot before \<^verbatim>\<open>start()\<close>.
\<close>

theorem registry_holds_new_handler:
  "map_get (originalHandlers (fst (start (example_monitor, node_env)))) ''uncaughtException''
     = Fn (UncaughtHandler 0)
   \<and> map_option uncaughtException (process node_env) = Some [Host 7]
   \<and> map_option uncaughtException (process (snd (start (example_monitor, node_env))))
       = Some [Host 7, UncaughtHandler 0]
   \<and> map_get (originalHandlers (fst (start (example_monitor, node_env)))) ''unhandledRejection''
     = Fn (NodeRejectionHandler 1)
   \<and> map_option unhandledRejection (process node_env) = Some []"
  by code_simp

text \<open>
  Claim C7, amended. After \<^verbatim>\<open>start()\<close> on an idle monitor every key of the registry is one
  of seven hook names. Under \<^verbatim>\<open>console.error\<close> and \<^verbatim>\<open>fetch\<close>, and under \<^verbatim>\<open>global.fetch\<close>
  when \<^verbatim>\<open>global\<close> is not the window object, it holds the function that was in the slot
  before \<^verbatim>\<open>start()\<close> (or nothing, if the block did not run). Under
  \<^verbatim>\<open>uncaughtException\<close>, \<^verbatim>\<open>unhandledRejection\<close>, \<^verbatim>\<open>unhandledrejection\<close> and \<^verbatim>\<open>error\<close> it
  holds the handler closure this call of \<^verbatim>\<open>start()\<close> created, which is what \<^verbatim>\<open>stop()\<close>
  needs to remove it.
\<close>

theorem registry_after_start:
  assumes "idle m"
  shows
   "fst ` set (originalHandlers (fst (start (m, e)))) \<subseteq> hook_names
    \<and> map_get (originalHandlers (fst (start (m, e)))) ''console.error'' =
        (case console e of
           Some c \<Rightarrow> if enabled (enableConsoleErrors (options m)) then c_error c else Undefined
         | None \<Rightarrow> Undefined)
    \<and> map_get (originalHandlers (fst (start (m, e)))) ''fetch'' =
        (case window e of
           Some w \<Rightarrow> if enabled (enableFetchMonitoring (options m)) \<and> truthy (w_fetch w)
                     then w_fetch w else Undefined
         | None \<Rightarrow> Undefined)
    \<and> (separate_globals e \<longrightarrow>
        map_get (originalHandlers (fst (start (m, e)))) ''global.fetch'' =
          (case global e of
             GlobalObject v \<Rightarrow>
               if enabled (enableFetchMonitoring (options m)) \<and> truthy v then v else Undefined
           | _ \<Rightarrow> Undefined))
    \<and> map_get (originalHandlers (fst (start (m, e)))) ''uncaughtException'' =
        (if process_on_available e then Fn (UncaughtHandler (next_closure e)) else Undefined)
    \<and> map_get (originalHandlers (fst (start (m, e)))) ''unhandledRejection'' =
        (if enabled (enablePromiseRejections (options m)) \<and> window e = None
            \<and> process_on_available e
         then Fn (NodeRejectionHandler (Suc (next_closure e))) else Undefined)
    \<and> map_get (originalHandlers (fst (start (m, e)))) ''unhandledrejection'' =
        (if enabled (enablePromiseRejections (options m)) \<and> window e \<noteq> None
         then Fn (BrowserRejectionHandler (next_closure (snd (after_uncaught m e))))
         else Undefined)
    \<and> map_get (originalHandlers (fst (start (m, e)))) ''error'' =
        (if window e \<noteq> None
         then Fn (WindowErrorHandler (next_closure (snd (after_console m e))))
         else Undefined)"
  using assms
  by (simp add: keys_start lookup_console_start lookup_fetch_start lookup_global_fetch_separate
      lookup_uncaught_start lookup_node_rejection_start lookup_browser_rejection_start
      lookup_error_start split: option.splits)

theorem registry_after_start_witness:
  "idle example_monitor \<and> separate_globals node_env
   \<and> originalHandlers (fst (start (example_monitor, node_env))) =
       [(''uncaughtException'', Fn (UncaughtHandler 0)),
        (''unhandledRejection'', Fn (NodeRejectionHandler 1)),
        (''console.error'', Fn (Host 2)),
        (''global.fetch'', Fn (Host 3))]
   \<and> map_get (originalHandlers (fst (start (example_monitor, node_env)))) ''console.error''
       = Fn (Host 2)
   \<and> map_get (originalHandlers (fst (start (example_monitor, node_env)))) ''global.fetch''
       = Fn (Host 3)
   \<and> map_get (originalHandlers (fst (start (example_monitor, node_env)))) ''uncaughtException''
       = Fn (UncaughtHandler 0)"
proof -
  have h: "idle example_monitor" "separate_globals node_env" by code_simp+
  have n: "enabled (enableConsoleErrors (options example_monitor))"
    "console node_env = Some \<lparr>c_log = Fn (Host 1), c_error = Fn (Host 2)\<rparr>"
    "enabled (enableFetchMonitoring (options example_monitor))"
    "global node_env = GlobalObject (Fn (Host 3))" "process_on_available node_env"
    "next_closure node_env = 0"
    by code_simp+
  have r: "originalHandlers (fst (start (example_monitor, node_env))) =
       [(''uncaughtException'', Fn (UncaughtHandler 0)),
        (''unhandledRejection'', Fn (NodeRejectionHandler 1)),
        (''console.error'', Fn (Host 2)),
        (''global.fetch'', Fn (Host 3))]"
    by code_simp
  show ?thesis
    using h r registry_after_start [OF h(1), of node_env] n by simp
qed

section \<open>reportError: properties\<close>

text \<open>A console function never calls the transport itself.\<close>

lemma call_no_fetch:
  "FetchCalled r \<notin> set (snd (call_fn th f a))"
  "FetchCalled r \<notin> set (snd (call_val th v a))"
  by (induction th f a and th v a rule: call_fn_call_val.induct)
    (auto simp: console_patch_reports_def split: prod.splits option.splits call_args.splits)

lemma console_call_no_fetch: "FetchCalled r \<notin> set (snd (console_call e w slot a))"
  by (simp add: console_call_def call_no_fetch split: option.splits)

text \<open>Whether a console function throws does not depend on its arguments.\<close>

lemma call_throws_any_args:
  "fst (call_fn th f a) = fst (call_fn th f a')"
  "fst (call_val th v a) = fst (call_val th v a')"
  by (induction th f a and th v a rule: call_fn_call_val.induct)
    (auto split: prod.splits option.splits)

text \<open>Every call of the transport made by reportError carries the monitor's own request.\<close>

lemma report_try_fetch:
  "FetchCalled r \<in> set (snd (report_try m e w event err ty)) \<Longrightarrow>
   r = build_request m (build_payload m w event err ty)"
  using console_call_no_fetch [of r e w c_log "LogArgs (build_payload m w event err ty)"]
  by (auto simp: report_try_def Let_def split: prod.splits option.splits transport.splits if_splits)

lemma reportError_fetch:
  assumes "FetchCalled r \<in> set (snd (reportError m e w event err ty))"
  shows "r = build_request m (build_payload m w event err ty)"
proof (cases "report_try m e w event err ty")
  case (Pair x tr)
  show ?thesis
  proof (cases x)
    case None
    with Pair assms show ?thesis
      using report_try_fetch [of r m e w event err ty] by (simp add: reportError_def)
  next
    case (Some reportErr)
    obtain y tr' where c: "console_call e w c_error (ErrorArgs reportErr) = (y, tr')"
      by (cases "console_call e w c_error (ErrorArgs reportErr)")
    have "FetchCalled r \<notin> set tr'"
      using console_call_no_fetch [of r e w c_error "ErrorArgs reportErr"] c by simp
    with Pair Some c assms have "FetchCalled r \<in> set tr"
      by (auto simp: reportError_def split: option.splits)
    then show ?thesis
      using report_try_fetch [of r m e w event err ty] Pair by simp
  qed
qed

text \<open>The promise is fulfilled whenever the console's error function returns.\<close>

lemma reportError_resolves:
  assumes "\<And>x. fst (console_call e w c_error (ErrorArgs x)) = None"
  shows "fst (reportError m e w event err ty) = Resolved"
proof (cases "report_try m e w event err ty")
  case (Pair x tr)
  show ?thesis
  proof (cases x)
    case None
    with Pair show ?thesis by (simp add: reportError_def)
  next
    case (Some reportErr)
    with Pair assms [of reportErr] show ?thesis
      by (cases "console_call e w c_error (ErrorArgs reportErr)") (simp add: reportError_def)
  qed
qed

text \<open>
  So it is on a runtime whose \<^verbatim>\<open>console.error\<close> is a host function that returns, or the
  monitor's wrapper around one: for every monitor, every argument and every behaviour of
  the serialiser and the transport.
\<close>

lemma reportError_resolves_host_console:
  assumes "console e = Some c"
    and "c_error c = Fn (Host h) \<or> c_error c = Fn (ConsoleErrorPatch i (Fn (Host h)))"
    and "\<not> host_throws w h"
  shows "fst (reportError m e w event err ty) = Resolved"
  using assms by (intro reportError_resolves) (auto simp: console_call_def)

text \<open>Without a console the promise rejects, whatever the transport does.\<close>

lemma reportError_rejects_no_console:
  "console e = None \<Longrightarrow>
   reportError m e w event err ty = (RejectedWith (ReferenceError ''console''), [])"
  by (simp add: reportError_def report_try_def console_call_def Let_def)

text \<open>
  On a runtime where the monitor's console wrapper is installed, a failed report is
  logged and reported again: the call of \<^verbatim>\<open>console.error\<close> in the catch block has a string
  and an \<^verbatim>\<open>Error\<close> as its arguments, which is what the wrapper reports. This holds for
  every event and every error, so also for the report issued that way: while the
  webhook keeps failing, each report issues the next.
\<close>

lemma failed_report_reported_again:
  assumes "console e = Some c" and "c_error c = Fn (ConsoleErrorPatch i (Fn (Host h)))"
    and "\<not> host_throws w h" and "fst (call_val (host_throws w) (c_log c) a) = None"
    and "stringify w = None" and "transport w = TransportResponds status" and "\<not> ok status"
  shows "ReportIssued i ''Error Monitor - Failed to report error:'' (ReportingFailed status)
           \<in> set (snd (reportError m e w event err ty))"
proof -
  obtain tr where l: "call_val (host_throws w) (c_log c)
      (LogArgs (build_payload m w event err ty)) = (None, tr)"
    using assms(4) call_throws_any_args(2) [of "host_throws w" "c_log c" a
        "LogArgs (build_payload m w event err ty)"]
    by (cases "call_val (host_throws w) (c_log c) (LogArgs (build_payload m w event err ty))")
      simp
  show ?thesis
    using assms l
    by (simp add: reportError_def report_try_def console_call_def Let_def
        console_patch_reports_def first_arg_def)
qed

text \<open>
  Claim C1 on three inputs. On a runtime without \<^verbatim>\<open>console\<close> (the case \<^verbatim>\<open>start()\<close> and
  \<^verbatim>\<open>stop()\<close> test for) the call of \<^verbatim>\<open>console.log\<close> throws inside the \<^verbatim>\<open>try\<close> block and the
  call of \<^verbatim>\<open>console.error\<close> throws inside the \<^verbatim>\<open>catch\<close> block: the promise rejects, although
  the webhook is up. With a \<^verbatim>\<open>console.error\<close> that throws and a webhook that answers 500
  the promise rejects with what \<^verbatim>\<open>console.error\<close> threw. On a started monitor with the
  webhook answering 500 the promise is fulfilled, but the failure is not only logged: the
  monitor's own console wrapper reports it again.
\<close>

theorem reportError_can_reject:
  "reportError example_monitor bare_env webhook_up ''checkout'' (ErrStr ''boom'') Manual
     = (RejectedWith (ReferenceError ''console''), [])
   \<and> fst (reportError example_monitor node_env (webhook_down\<lparr>host_throws := (\<lambda>h. h = 2)\<rparr>)
            ''checkout'' (ErrStr ''boom'') Manual)
     = RejectedWith (HostError 2)
   \<and> ReportIssued 2 ''Error Monitor - Failed to report error:'' (ReportingFailed 500)
       \<in> set (snd (reportError (fst (start (example_monitor, node_env)))
                     (snd (start (example_monitor, node_env))) webhook_down
                     ''checkout'' (ErrStr ''boom'') Manual))"
  by code_simp

text \<open>
  Claim C10. \<^verbatim>\<open>reportError\<close> does the same on a monitor whatever its \<^verbatim>\<open>isActive\<close> flag is:
  same promise, same steps. Whenever the \<^verbatim>\<open>console.log\<close> call returns and the payload can
  be serialised, the transport is called with the monitor's request, active or not.
\<close>

theorem reportError_ignores_isActive:
  "reportError (m\<lparr>isActive := b\<rparr>) e w event err ty = reportError m e w event err ty
   \<and> (fst (console_call e w c_log (LogArgs (build_payload m w event err ty))) = None
        \<and> stringify w = None \<longrightarrow>
      FetchCalled (build_request m (build_payload m w event err ty))
        \<in> set (snd (reportError (m\<lparr>isActive := b\<rparr>) e w event err ty)))"
proof -
  have p: "build_payload (m\<lparr>isActive := b\<rparr>) w event err ty = build_payload m w event err ty"
    by (simp add: build_payload_def)
  have r: "build_request (m\<lparr>isActive := b\<rparr>) q = build_request m q" for q
    by (simp add: build_request_def)
  have "report_try (m\<lparr>isActive := b\<rparr>) e w event err ty = report_try m e w event err ty"
    by (auto simp: report_try_def p r Let_def split: prod.splits option.splits transport.splits)
  then have a: "reportError (m\<lparr>isActive := b\<rparr>) e w event err ty
                  = reportError m e w event err ty"
    by (simp add: reportError_def)
  have "FetchCalled (build_request m (build_payload m w event err ty))
          \<in> set (snd (reportError m e w event err ty))"
    if "fst (console_call e w c_log (LogArgs (build_payload m w event err ty))) = None"
      and "stringify w = None"
    using that
    by (cases "console_call e w c_log (LogArgs (build_payload m w event err ty))")
      (auto simp: reportError_def report_try_def Let_def
        split: prod.splits option.splits transport.splits)
  with a show ?thesis by simp
qed

theorem reportError_ignores_isActive_witness:
  "\<not> isActive example_monitor
   \<and> fst (console_call node_env webhook_up c_log
            (LogArgs (build_payload example_monitor webhook_up ''checkout'' (ErrStr ''boom'') Manual)))
       = None
   \<and> stringify webhook_up = None
   \<and> reportError (example_monitor\<lparr>isActive := True\<rparr>) node_env webhook_up ''checkout''
         (ErrStr ''boom'') Manual
       = reportError example_monitor node_env webhook_up ''checkout'' (ErrStr ''boom'') Manual
   \<and> FetchCalled (build_request example_monitor
         (build_payload example_monitor webhook_up ''checkout'' (ErrStr ''boom'') Manual))
       \<in> set (snd (reportError example_monitor node_env webhook_up ''checkout''
                     (ErrStr ''boom'') Manual))"
proof -
  have h: "\<not> isActive example_monitor"
    "fst (console_call node_env webhook_up c_log
            (LogArgs (build_payload example_monitor webhook_up ''checkout'' (ErrStr ''boom'') Manual)))
       = None \<and> stringify webhook_up = None"
    by code_simp+
  note t = reportError_ignores_isActive [where m = example_monitor and b = True
      and e = node_env and w = webhook_up and event = "''checkout''" and err = "ErrStr ''boom''"
      and ty = Manual]
  show ?thesis
    using h t [THEN conjunct1] t [THEN conjunct2, rule_format, OF h(2)] by simp
qed

section \<open>wrapFunction: properties\<close>

text \<open>
  What the wrapper does in each case. If \<open>fn\<close> throws, it makes one report and throws the
  same value. If \<open>fn\<close> returns a promise that rejects, its promise rejects with the same
  reason after one report; a fulfilled promise and a value without \<^verbatim>\<open>then\<close> go through
  with no report. The wrapper has the name of \<open>fn\<close>.
\<close>

lemma wrapFunction_cases:
  "(fn_apply fn args = Throw x \<longrightarrow>
      wf_apply (wrapFunction mon fn label) args =
        (Throw x,
         [\<lparr>rc_monitor = mon,
           rc_event = event_label label (fn_name fn) ''anonymous_function'',
           rc_error = x, rc_errorType = Manual\<rparr>]))
   \<and> (fn_apply fn args = ReturnPromise (Rejected x) \<longrightarrow>
      wf_apply (wrapFunction mon fn label) args =
        (ReturnPromise (Rejected x),
         [\<lparr>rc_monitor = mon,
           rc_event = event_label label (fn_name fn) ''anonymous_async_function'',
           rc_error = x, rc_errorType = Manual\<rparr>]))
   \<and> (fn_apply fn args = Return v \<longrightarrow>
      wf_apply (wrapFunction mon fn label) args = (Return v, []))
   \<and> (fn_apply fn args = ReturnPromise (Fulfilled v) \<longrightarrow>
      wf_apply (wrapFunction mon fn label) args = (ReturnPromise (Fulfilled v), []))
   \<and> wf_name (wrapFunction mon fn label) = fn_name fn"
  by (simp add: wrapFunction_def wrapped_try_def promise_catch_def report_and_rethrow_def)

text \<open>
  A value with \<^verbatim>\<open>then\<close> and without \<^verbatim>\<open>catch\<close> does not go through: the call of
  \<^verbatim>\<open>result.catch\<close> throws inside the \<^verbatim>\<open>try\<close> block, and the \<^verbatim>\<open>catch\<close> block reports the
  \<^verbatim>\<open>TypeError\<close> and throws it.
\<close>

lemma wrapFunction_thenable:
  "fn_apply fn args = ReturnThenable v \<Longrightarrow>
   wf_apply (wrapFunction mon fn label) args =
     (Throw CatchNotCallable,
      [\<lparr>rc_monitor = mon,
        rc_event = event_label label (fn_name fn) ''anonymous_function'',
        rc_error = CatchNotCallable, rc_errorType = Manual\<rparr>])"
  by (simp add: wrapFunction_def wrapped_try_def report_and_rethrow_def)

text \<open>
  Claim C2 on a function that returns normally, with an object that has a \<^verbatim>\<open>then\<close> method
  and no \<^verbatim>\<open>catch\<close> method as its value. The claim has the wrapper return that value
  unmodified and make no report; the wrapper throws a \<^verbatim>\<open>TypeError\<close> instead and makes one
  report. On the other function of the examples it does what the claim says: one report
  and the same value thrown, one report and the same reason rejected, none and the same
  value returned, and the name of the function.
\<close>

theorem wrapFunction_thenable_without_catch:
  "fn_apply thenable_fn 7 = ReturnThenable 7
   \<and> wf_apply (wrapFunction example_monitor thenable_fn None) 7 =
        (Throw CatchNotCallable,
         [\<lparr>rc_monitor = example_monitor, rc_event = ''query'', rc_error = CatchNotCallable,
           rc_errorType = Manual\<rparr>])
   \<and> wf_apply (wrapFunction example_monitor example_fn None) 0 =
        (Throw (Thrown ''zero''),
         [\<lparr>rc_monitor = example_monitor, rc_event = ''lookup'', rc_error = Thrown ''zero'',
           rc_errorType = Manual\<rparr>])
   \<and> wf_apply (wrapFunction example_monitor example_fn (Some ''Shop.lookup'')) 1 =
        (ReturnPromise (Rejected (Thrown ''one'')),
         [\<lparr>rc_monitor = example_monitor, rc_event = ''Shop.lookup'', rc_error = Thrown ''one'',
           rc_errorType = Manual\<rparr>])
   \<and> wf_apply (wrapFunction example_monitor example_fn None) 5 = (Return 5, [])
   \<and> wf_name (wrapFunction example_monitor example_fn None) = ''lookup''"
  by (simp add: wrapFunction_def wrapped_try_def promise_catch_def report_and_rethrow_def
      event_label_def thenable_fn_def example_fn_def)

section \<open>The module: properties\<close>

lemma on_monitor_simps:
  "globalMonitor (on_monitor i f st) = globalMonitor st"
  "length (monitors (on_monitor i f st)) = length (monitors st)"
  "i < length (monitors st) \<Longrightarrow>
     monitors (on_monitor i f st) = (monitors st)[i := fst (f (monitors st ! i, runtime st))]"
  "i < length (monitors st) \<Longrightarrow>
     runtime (on_monitor i f st) = snd (f (monitors st ! i, runtime st))"
  by (auto simp: on_monitor_def split: prod.splits)

lemma stop_global_all_inactive:
  assumes "single_active st" "globalMonitor st = Some g"
  shows "all_inactive (on_monitor g stop st)"
proof -
  have g: "g < length (monitors st)" using assms by (simp add: single_active_def)
  have "\<not> isActive ((monitors (on_monitor g stop st)) ! i)"
    if "i < length (monitors st)" for i
  proof (cases "i = g")
    case True
    then show ?thesis using g isActive_stop by (simp add: on_monitor_simps)
  next
    case False
    then have "\<not> isActive (monitors st ! i)"
      using assms that by (auto simp: single_active_def)
    with False show ?thesis using g by (simp add: on_monitor_simps)
  qed
  then show ?thesis by (simp add: all_inactive_def on_monitor_simps)
qed

lemma no_global_all_inactive:
  "single_active st \<Longrightarrow> globalMonitor st = None \<Longrightarrow> all_inactive st"
  by (auto simp: single_active_def all_inactive_def)

lemma start_new_single_active:
  assumes "all_inactive st1"
  shows "single_active
     (on_monitor (length (monitors st1)) start
        (st1\<lparr>monitors := monitors st1 @ [new_ErrorMonitor key opts],
             globalMonitor := Some (length (monitors st1))\<rparr>))"
proof -
  let ?r = "length (monitors st1)"
  let ?st2 = "st1\<lparr>monitors := monitors st1 @ [new_ErrorMonitor key opts],
                   globalMonitor := Some ?r\<rparr>"
  have r: "?r < length (monitors ?st2)" by simp
  have "\<not> isActive (monitors (on_monitor ?r start ?st2) ! i)" if "i < ?r" for i
    using that assms by (simp add: on_monitor_simps(3) [OF r] all_inactive_def nth_append)
  then show ?thesis
    using r
    by (auto simp: single_active_def on_monitor_simps(1,2) less_Suc_eq)
qed

lemma single_active_monitor: "single_active st \<Longrightarrow> single_active (fst (monitor key opts st))"
proof -
  assume a: "single_active st"
  show ?thesis
  proof (cases "globalMonitor st")
    case None
    then show ?thesis
      using start_new_single_active [OF no_global_all_inactive [OF a None]]
      by (simp add: monitor_def Let_def)
  next
    case (Some g)
    then show ?thesis
      using start_new_single_active [OF stop_global_all_inactive [OF a Some]]
      by (simp add: monitor_def Let_def)
  qed
qed

lemma single_active_stopMonitoring: "single_active st \<Longrightarrow> single_active (stopMonitoring st)"
proof -
  assume a: "single_active st"
  show ?thesis
  proof (cases "globalMonitor st")
    case None
    then show ?thesis using a by (simp add: stopMonitoring_def)
  next
    case (Some g)
    then show ?thesis
      using stop_global_all_inactive [OF a Some]
      by (simp add: stopMonitoring_def single_active_def all_inactive_def)
  qed
qed

lemma issueUpdate_state: "snd (issueUpdate key event err data w st) = st"
  by (simp add: issueUpdate_def Let_def split: option.splits)

lemma reachable_single_active: "reachable st \<Longrightarrow> single_active st"
proof (induction rule: reachable.induct)
  case (fresh e)
  show ?case by (simp add: single_active_def)
next
  case (by_monitor st key opts)
  then show ?case by (simp add: single_active_monitor)
next
  case (by_stopMonitoring st)
  then show ?case by (simp add: single_active_stopMonitoring)
next
  case (by_issueUpdate st key event err data w)
  then show ?case by (simp add: issueUpdate_state)
qed

lemma monitor_replaces:
  assumes "single_active st" "globalMonitor st = Some g"
  shows "runtime (fst (monitor key opts st)) =
           snd (start (new_ErrorMonitor key opts, snd (stop (monitors st ! g, runtime st))))"
    and "\<not> isActive (monitors (fst (monitor key opts st)) ! g)"
    and "globalMonitor (fst (monitor key opts st)) = Some (length (monitors st))"
    and "snd (monitor key opts st) = length (monitors st)"
    and "isActive (monitors (fst (monitor key opts st)) ! length (monitors st))"
    and "apiKey (monitors (fst (monitor key opts st)) ! length (monitors st)) = key"
proof -
  have g: "g < length (monitors st)" using assms by (simp add: single_active_def)
  let ?st1 = "on_monitor g stop st"
  let ?r = "length (monitors st)"
  let ?st2 = "?st1\<lparr>monitors := monitors ?st1 @ [new_ErrorMonitor key opts],
                    globalMonitor := Some ?r\<rparr>"
  have l1: "length (monitors ?st1) = ?r" by (simp add: on_monitor_simps)
  have m: "monitor key opts st = (on_monitor ?r start ?st2, ?r)"
    using assms(2) by (simp add: monitor_def Let_def l1)
  have r: "?r < length (monitors ?st2)" by (simp add: l1)
  have new: "monitors ?st2 ! ?r = new_ErrorMonitor key opts"
    using l1 by (simp add: nth_append)
  have rt: "runtime ?st2 = snd (stop (monitors st ! g, runtime st))"
    using g by (simp add: on_monitor_simps)
  show "runtime (fst (monitor key opts st)) =
           snd (start (new_ErrorMonitor key opts, snd (stop (monitors st ! g, runtime st))))"
    unfolding m using on_monitor_simps(4) [OF r, of start] new rt by simp
  have old: "monitors ?st2 ! g = fst (stop (monitors st ! g, runtime st))"
    using g l1 by (simp add: nth_append on_monitor_simps)
  show "\<not> isActive (monitors (fst (monitor key opts st)) ! g)"
    unfolding m using on_monitor_simps(3) [OF r, of start] g old isActive_stop by simp
  show "globalMonitor (fst (monitor key opts st)) = Some (length (monitors st))"
    unfolding m by (simp add: on_monitor_simps)
  show "snd (monitor key opts st) = length (monitors st)"
    unfolding m by simp
  have "monitors (on_monitor ?r start ?st2) ! ?r = fst (start (new_ErrorMonitor key opts, runtime ?st2))"
    using on_monitor_simps(3) [OF r, of start] r new by simp
  then show "isActive (monitors (fst (monitor key opts st)) ! length (monitors st))"
    and "apiKey (monitors (fst (monitor key opts st)) ! length (monitors st)) = key"
    unfolding m by (simp_all add: isActive_start apiKey_start new_ErrorMonitor_def)
qed

text \<open>
  Claim C8. In every state the module's functions reach, an active monitor is the one
  \<^verbatim>\<open>globalMonitor\<close> refers to, so at most one is active. When \<^verbatim>\<open>monitor(apiKey, options)\<close>
  is called while a global monitor exists, the new monitor is started on the runtime the
  old monitor's \<^verbatim>\<open>stop()\<close> has left, the old monitor is inactive afterwards, and the new
  one is active, carries the given key and is the global monitor. \<^verbatim>\<open>issueUpdate\<close> without a
  global monitor reports through a monitor built from its arguments and leaves the module
  state, and so \<^verbatim>\<open>globalMonitor\<close>, as it was.
\<close>

theorem one_global_monitor:
  "(reachable st \<longrightarrow> single_active st)
   \<and> (single_active st \<and> globalMonitor st = Some g \<longrightarrow>
        runtime (fst (monitor key opts st)) =
          snd (start (new_ErrorMonitor key opts, snd (stop (monitors st ! g, runtime st))))
        \<and> \<not> isActive (monitors (fst (monitor key opts st)) ! g)
        \<and> globalMonitor (fst (monitor key opts st)) = Some (snd (monitor key opts st))
        \<and> snd (monitor key opts st) = length (monitors st)
        \<and> isActive (monitors (fst (monitor key opts st)) ! snd (monitor key opts st))
        \<and> apiKey (monitors (fst (monitor key opts st)) ! snd (monitor key opts st)) = key)
   \<and> (globalMonitor st = None \<longrightarrow>
        issueUpdate key event err data w st =
          (reportError (new_ErrorMonitor key data) (runtime st) w event err Manual, st))"
  by (simp add: reachable_single_active monitor_replaces issueUpdate_def Let_def)

theorem one_global_monitor_witness:
  "reachable (fst (monitor ''key2'' no_options one_monitor))
   \<and> globalMonitor one_monitor = Some 0
   \<and> \<not> isActive (monitors (fst (monitor ''key2'' no_options one_monitor)) ! 0)
   \<and> isActive (monitors (fst (monitor ''key2'' no_options one_monitor)) ! 1)
   \<and> globalMonitor (fst (monitor ''key2'' no_options one_monitor)) = Some 1
   \<and> apiKey (monitors (fst (monitor ''key2'' no_options one_monitor)) ! 1) = ''key2''
   \<and> globalMonitor fresh_module = None
   \<and> globalMonitor (snd (issueUpdate ''key'' ''checkout'' (ErrStr ''boom'') no_options webhook_up
        fresh_module)) = None"
proof -
  have r1: "reachable one_monitor"
    unfolding one_monitor_def fresh_module_def by (intro reachable.intros)
  have r2: "reachable (fst (monitor ''key2'' no_options one_monitor))"
    using r1 by (rule reachable.by_monitor)
  have s1: "single_active one_monitor"
    using one_global_monitor [where st = one_monitor, THEN conjunct1] r1 by simp
  have g: "globalMonitor one_monitor = Some 0" "length (monitors one_monitor) = 1"
    "globalMonitor fresh_module = None"
    by code_simp+
  note t = one_global_monitor [where st = one_monitor and g = 0 and key = "''key2''"
      and opts = no_options, THEN conjunct2, THEN conjunct1, rule_format, OF conjI [OF s1 g(1)]]
  note u = one_global_monitor [where st = fresh_module and key = "''key''"
      and event = "''checkout''" and err = "ErrStr ''boom''" and data = no_options
      and w = webhook_up, THEN conjunct2, THEN conjunct2, rule_format, OF g(3)]
  have a: "\<not> isActive (monitors (fst (monitor ''key2'' no_options one_monitor)) ! 0)"
    "isActive (monitors (fst (monitor ''key2'' no_options one_monitor)) ! 1)"
    "globalMonitor (fst (monitor ''key2'' no_options one_monitor)) = Some 1"
    "apiKey (monitors (fst (monitor ''key2'' no_options one_monitor)) ! 1) = ''key2''"
    using t g(2) by auto
  have b: "globalMonitor (snd (issueUpdate ''key'' ''checkout'' (ErrStr ''boom'') no_options
        webhook_up fresh_module)) = None"
    using u g(3) by simp
  show ?thesis
    using r2 g(1,3) a b by blast
qed

text \<open>
  Claim C9. While a global monitor exists, \<^verbatim>\<open>issueUpdate\<close> is \<^verbatim>\<open>reportError\<close> of that monitor:
  the result does not depend on the \<open>apiKey\<close> and \<open>data\<close> arguments, and every call of the
  transport carries the global monitor's key, endpoint and options. Without a global
  monitor the transport is called with the key and the options built from the arguments.
\<close>

theorem issueUpdate_uses_global_monitor:
  "(globalMonitor st = Some g \<and> g < length (monitors st) \<longrightarrow>
      issueUpdate key event err data w st =
        (reportError (monitors st ! g) (runtime st) w event err Manual, st)
      \<and> issueUpdate key event err data w st = issueUpdate key' event err data' w st
      \<and> (\<forall>r. FetchCalled r \<in> set (snd (fst (issueUpdate key event err data w st))) \<longrightarrow>
            r_authorization r = ''Bearer '' @ apiKey (monitors st ! g)
            \<and> r_url r = endpoint (options (monitors st ! g))
            \<and> p_data (r_body r) = options (monitors st ! g)))
   \<and> (globalMonitor st = None \<longrightarrow>
      (\<forall>r. FetchCalled r \<in> set (snd (fst (issueUpdate key event err data w st))) \<longrightarrow>
            r_authorization r = ''Bearer '' @ key
            \<and> r_url r = endpoint (options (new_ErrorMonitor key data))
            \<and> p_data (r_body r) = options (new_ErrorMonitor key data)))"
proof -
  have f: "r_authorization r = ''Bearer '' @ apiKey m \<and> r_url r = endpoint (options m)
           \<and> p_data (r_body r) = options m"
    if "FetchCalled r \<in> set (snd (reportError m e w event err ty))" for r m e ty
    using reportError_fetch [OF that] by (simp add: build_request_def build_payload_def Let_def)
  show ?thesis
    using f by (auto simp: issueUpdate_def Let_def new_ErrorMonitor_def)
qed

theorem issueUpdate_uses_global_monitor_witness:
  "globalMonitor one_monitor = Some 0 \<and> 0 < length (monitors one_monitor)
   \<and> apiKey (monitors one_monitor ! 0) = ''key''
   \<and> issueUpdate ''other'' ''checkout'' (ErrStr ''boom'') (no_options\<lparr>notifier := Given ''discord''\<rparr>)
        webhook_up one_monitor
       = issueUpdate ''key'' ''checkout'' (ErrStr ''boom'') no_options webhook_up one_monitor
   \<and> fst (issueUpdate ''other'' ''checkout'' (ErrStr ''boom'')
        (no_options\<lparr>notifier := Given ''discord''\<rparr>) webhook_up one_monitor)
       = reportError (monitors one_monitor ! 0) (runtime one_monitor) webhook_up ''checkout''
           (ErrStr ''boom'') Manual"
proof -
  have h: "globalMonitor one_monitor = Some 0 \<and> 0 < length (monitors one_monitor)"
    by code_simp
  have k: "apiKey (monitors one_monitor ! 0) = ''key''" by code_simp
  note t = issueUpdate_uses_global_monitor [where st = one_monitor and g = 0
      and key = "''other''" and event = "''checkout''" and err = "ErrStr ''boom''"
      and data = "no_options\<lparr>notifier := Given ''discord''\<rparr>" and w = webhook_up
      and key' = "''key''" and data' = no_options, THEN conjunct1, rule_format, OF h]
  have a: "issueUpdate ''other'' ''checkout'' (ErrStr ''boom'')
        (no_options\<lparr>notifier := Given ''discord''\<rparr>) webhook_up one_monitor
       = issueUpdate ''key'' ''checkout'' (ErrStr ''boom'') no_options webhook_up one_monitor"
    by (rule t [THEN conjunct2, THEN conjunct1])
  have b: "fst (issueUpdate ''other'' ''checkout'' (ErrStr ''boom'')
        (no_options\<lparr>notifier := Given ''discord''\<rparr>) webhook_up one_monitor)
       = reportError (monitors one_monitor ! 0) (runtime one_monitor) webhook_up ''checkout''
           (ErrStr ''boom'') Manual"
    by (simp add: t [THEN conjunct1])
  show ?thesis
    using h k a b by blast
qed

end
